theory Spec2Isabelle
  imports Main
begin

section \<open>Supervised, deadline-bounded subprocess execution (package grace)\<close>

text \<open>
  The package starts a command in a process group of its own, drains its two output
  pipes in a goroutine, waits for it, and races the goroutine's result against the
  deadline of a context; on expiry it signals the whole group.

  The embedding follows the Go text statement by statement. What the operating system
  does (pipe creation, start, the two reads, the wait, the two kills) is a record of
  results, \<open>os_env\<close>; the goroutine is a program counter with a step function; the two
  channels are buffers of capacity one; the \<^verbatim>\<open>select\<close> of the supervisor is a move of the
  scheduler. A schedule is a list of moves, a move that is not enabled is skipped, and a
  property of every execution is a property of every schedule.

  The repository holds four copies of the package. \<^verbatim>\<open>exec.go\<close> is embedded under the
  source's names (\<open>Spawn\<close>, \<open>RunTimedSh\<close>, \<open>RunTimed\<close>). The three older copies have one and
  the same \<^verbatim>\<open>Spawn\<close>, embedded as \<open>Spawn_v0\<close>; their entry points are \<open>RunTimedSh_quoted\<close>
  and \<open>RunTimed_args\<close> (first older copy with entry points) and \<open>RunShTimed\<close> and
  \<open>RunTimed_fields\<close> (second one).
\<close>

subsection \<open>Errors\<close>

text \<open>
  \<open>ErrTimeout\<close> and \<open>ErrFailToKill\<close> are the package's two sentinels. \<open>ExitError c\<close> is
  an \<^verbatim>\<open>*exec.ExitError\<close> whose \<^verbatim>\<open>ExitCode()\<close> is \<open>c\<close>; \<open>OSError\<close> is any other error of the
  operating system or the standard library; \<open>Join\<close> is what \<^verbatim>\<open>errors.Join\<close> builds.
\<close>

datatype err = OSError string | ExitError int | ErrTimeout | ErrFailToKill | Join "err list"

text \<open>\<^verbatim>\<open>errors.Join\<close>: nil values are discarded, and the result is nil when all are nil.\<close>

definition errors_Join :: "err option list \<Rightarrow> err option" where
  "errors_Join errs =
     (case List.map_filter id errs of [] \<Rightarrow> None | e # es \<Rightarrow> Some (Join (e # es)))"

text \<open>\<^verbatim>\<open>errors.Is\<close>: the error equals the target, or one of the errors it wraps matches.\<close>

fun errors_Is :: "err \<Rightarrow> err \<Rightarrow> bool" where
  "errors_Is (Join es) target = (Join es = target \<or> list_ex (\<lambda>e. errors_Is e target) es)"
| "errors_Is e target = (e = target)"

text \<open>The type assertion \<^verbatim>\<open>err.(*exec.ExitError)\<close>, giving the exit code.\<close>

fun as_ExitError :: "err \<Rightarrow> int option" where
  "as_ExitError (ExitError c) = Some c"
| "as_ExitError e = None"

subsection \<open>Commands, results and the operating system\<close>

record Cmd =
  Path :: string
  Args :: "string list"
  Env :: "string list option"
  Setpgid :: bool

text \<open>
  \<^verbatim>\<open>exec.Command(name, arg...)\<close>: the argument vector starts with the name. \<open>Path\<close> holds
  the name as given; the lookup of the executable is part of what the operating system
  answers for the command.
\<close>

definition exec_Command :: "string \<Rightarrow> string list \<Rightarrow> Cmd" where
  "exec_Command name arg = \<lparr>Path = name, Args = name # arg, Env = None, Setpgid = False\<rparr>"

record Output =
  StdOut :: string
  StdErr :: string
  ExitCode :: int

definition Combine :: "Output \<Rightarrow> string" where
  "Combine o' = StdOut o' @ StdErr o'"

text \<open>\<^verbatim>\<open>Output{}\<close>, the zero value returned beside every error.\<close>

definition Output_zero :: Output where
  "Output_zero = \<lparr>StdOut = [], StdErr = [], ExitCode = 0\<rparr>"

text \<open>The struct of the older copies has no exit code.\<close>

record Output_v0 =
  StdOut_v0 :: string
  StdErr_v0 :: string

definition Combine_v0 :: "Output_v0 \<Rightarrow> string" where
  "Combine_v0 o' = StdOut_v0 o' @ StdErr_v0 o'"

definition Output_v0_zero :: Output_v0 where
  "Output_v0_zero = \<lparr>StdOut_v0 = [], StdErr_v0 = []\<rparr>"

datatype signal = SIGTERM | SIGKILL

datatype stream = Stdout | Stderr

text \<open>
  What the operating system answers for one started command: the error of each call (None
  is nil), the process identifier, the bytes each \<^verbatim>\<open>io.ReadAll\<close> returns beside its error
  (a read that ends with an error has not reached end-of-stream), and the answer of
  \<^verbatim>\<open>unix.Kill\<close> for a target and a signal.
\<close>

record os_env =
  StdoutPipe_err :: "err option"
  StderrPipe_err :: "err option"
  Start_err :: "err option"
  Pid :: int
  ReadAll_stdout :: "string \<times> err option"
  ReadAll_stderr :: "string \<times> err option"
  Wait_err :: "err option"
  Kill :: "int \<Rightarrow> signal \<Rightarrow> err option"

subsection \<open>The goroutine, the channels and the supervisor\<close>

text \<open>
  The program counter of the goroutine names the statement it executes next; a pending
  channel send carries the error it sends.
\<close>

datatype pc =
  NotStarted | ReadStdout | SendErrStdout err | ReadStderr | SendErrStderr err
  | CallWait | SendErrWait err | SendOut | Exited

datatype event =
  EvStart Cmd | EvReadAll stream "err option" | EvSendErr err | EvWait "err option"
  | EvSendOut | EvKill int signal | EvWarn

record 'o state =
  upc :: pc
  stdOutput :: string
  stdError :: string
  exitCode :: int
  outChan :: "'o list"
  errChan :: "err list"
  returned :: "('o \<times> err option) option"
  trace :: "event list"

definition initial :: "'o state" where
  "initial = \<lparr>upc = NotStarted, stdOutput = [], stdError = [], exitCode = 0,
               outChan = [], errChan = [], returned = None, trace = []\<rparr>"

text \<open>A send on a channel made with capacity 1: it blocks (None) while the buffer is full.\<close>

definition chan_send :: "'a \<Rightarrow> 'a list \<Rightarrow> 'a list option" where
  "chan_send v buf = (if length buf < 1 then Some (buf @ [v]) else None)"

text \<open>One statement of the goroutine of \<^verbatim>\<open>exec.go\<close>; None when it is blocked or over.\<close>

definition unit_step :: "os_env \<Rightarrow> Output state \<Rightarrow> Output state option" where
  "unit_step env s =
     (case upc s of
        NotStarted \<Rightarrow> None
      | ReadStdout \<Rightarrow>
          (case ReadAll_stdout env of (b, e) \<Rightarrow>
             Some (s\<lparr>stdOutput := b,
                      upc := (case e of Some x \<Rightarrow> SendErrStdout x | None \<Rightarrow> ReadStderr),
                      trace := trace s @ [EvReadAll Stdout e]\<rparr>))
      | SendErrStdout x \<Rightarrow>
          (case chan_send x (errChan s) of
             None \<Rightarrow> None
           | Some c \<Rightarrow> Some (s\<lparr>errChan := c, upc := ReadStderr, trace := trace s @ [EvSendErr x]\<rparr>))
      | ReadStderr \<Rightarrow>
          (case ReadAll_stderr env of (b, e) \<Rightarrow>
             Some (s\<lparr>stdError := b,
                      upc := (case e of Some x \<Rightarrow> SendErrStderr x | None \<Rightarrow> CallWait),
                      trace := trace s @ [EvReadAll Stderr e]\<rparr>))
      | SendErrStderr x \<Rightarrow>
          (case chan_send x (errChan s) of
             None \<Rightarrow> None
           | Some c \<Rightarrow> Some (s\<lparr>errChan := c, upc := CallWait, trace := trace s @ [EvSendErr x]\<rparr>))
      | CallWait \<Rightarrow>
          (case Wait_err env of
             None \<Rightarrow> Some (s\<lparr>exitCode := 0, upc := SendOut, trace := trace s @ [EvWait None]\<rparr>)
           | Some x \<Rightarrow>
               (case as_ExitError x of
                  Some c \<Rightarrow>
                    Some (s\<lparr>exitCode := c, upc := SendOut, trace := trace s @ [EvWait (Some x)]\<rparr>)
                | None \<Rightarrow>
                    Some (s\<lparr>exitCode := 0, upc := SendErrWait x,
                             trace := trace s @ [EvWait (Some x)]\<rparr>)))
      | SendErrWait x \<Rightarrow>
          (case chan_send x (errChan s) of
             None \<Rightarrow> None
           | Some c \<Rightarrow> Some (s\<lparr>errChan := c, upc := Exited, trace := trace s @ [EvSendErr x]\<rparr>))
      | SendOut \<Rightarrow>
          (case chan_send \<lparr>StdOut = stdOutput s, StdErr = stdError s, ExitCode = exitCode s\<rparr>
                  (outChan s) of
             None \<Rightarrow> None
           | Some c \<Rightarrow> Some (s\<lparr>outChan := c, upc := Exited, trace := trace s @ [EvSendOut]\<rparr>))
      | Exited \<Rightarrow> None)"

text \<open>
  One statement of the goroutine of the older copies: a wait error of any kind is sent on
  the error channel, and the output is sent after it.
\<close>

definition unit_step_v0 :: "os_env \<Rightarrow> Output_v0 state \<Rightarrow> Output_v0 state option" where
  "unit_step_v0 env s =
     (case upc s of
        NotStarted \<Rightarrow> None
      | ReadStdout \<Rightarrow>
          (case ReadAll_stdout env of (b, e) \<Rightarrow>
             Some (s\<lparr>stdOutput := b,
                      upc := (case e of Some x \<Rightarrow> SendErrStdout x | None \<Rightarrow> ReadStderr),
                      trace := trace s @ [EvReadAll Stdout e]\<rparr>))
      | SendErrStdout x \<Rightarrow>
          (case chan_send x (errChan s) of
             None \<Rightarrow> None
           | Some c \<Rightarrow> Some (s\<lparr>errChan := c, upc := ReadStderr, trace := trace s @ [EvSendErr x]\<rparr>))
      | ReadStderr \<Rightarrow>
          (case ReadAll_stderr env of (b, e) \<Rightarrow>
             Some (s\<lparr>stdError := b,
                      upc := (case e of Some x \<Rightarrow> SendErrStderr x | None \<Rightarrow> CallWait),
                      trace := trace s @ [EvReadAll Stderr e]\<rparr>))
      | SendErrStderr x \<Rightarrow>
          (case chan_send x (errChan s) of
             None \<Rightarrow> None
           | Some c \<Rightarrow> Some (s\<lparr>errChan := c, upc := CallWait, trace := trace s @ [EvSendErr x]\<rparr>))
      | CallWait \<Rightarrow>
          (case Wait_err env of
             None \<Rightarrow> Some (s\<lparr>upc := SendOut, trace := trace s @ [EvWait None]\<rparr>)
           | Some x \<Rightarrow> Some (s\<lparr>upc := SendErrWait x, trace := trace s @ [EvWait (Some x)]\<rparr>))
      | SendErrWait x \<Rightarrow>
          (case chan_send x (errChan s) of
             None \<Rightarrow> None
           | Some c \<Rightarrow> Some (s\<lparr>errChan := c, upc := SendOut, trace := trace s @ [EvSendErr x]\<rparr>))
      | SendOut \<Rightarrow>
          (case chan_send \<lparr>StdOut_v0 = stdOutput s, StdErr_v0 = stdError s\<rparr> (outChan s) of
             None \<Rightarrow> None
           | Some c \<Rightarrow> Some (s\<lparr>outChan := c, upc := Exited, trace := trace s @ [EvSendOut]\<rparr>))
      | Exited \<Rightarrow> None)"

text \<open>
  The \<^verbatim>\<open>ctx.Done()\<close> case of the select: SIGTERM to the negated process identifier
  (the process leads a group of its own, so this is the negated group identifier), then
  SIGKILL when the first send failed. \<open>logs\<close> is what is logged between the two: nothing in
  \<^verbatim>\<open>exec.go\<close>, a warning in the older copies.
\<close>

definition ctx_Done :: "'o \<Rightarrow> event list \<Rightarrow> os_env \<Rightarrow> 'o state \<Rightarrow> 'o state" where
  "ctx_Done zero logs env s =
     (case Kill env (- Pid env) SIGTERM of
        None \<Rightarrow>
          s\<lparr>returned := Some (zero, Some ErrTimeout),
            trace := trace s @ [EvKill (- Pid env) SIGTERM]\<rparr>
      | Some e1 \<Rightarrow>
          (case Kill env (- Pid env) SIGKILL of
             None \<Rightarrow>
               s\<lparr>returned := Some (zero, Some ErrTimeout),
                 trace := trace s @ [EvKill (- Pid env) SIGTERM] @ logs
                            @ [EvKill (- Pid env) SIGKILL]\<rparr>
           | Some e2 \<Rightarrow>
               s\<lparr>returned := Some (zero, errors_Join [Some e2, Some ErrTimeout, Some ErrFailToKill]),
                 trace := trace s @ [EvKill (- Pid env) SIGTERM] @ logs
                            @ [EvKill (- Pid env) SIGKILL]\<rparr>))"

text \<open>
  The moves of a schedule: the goroutine executes its next statement, or the select of
  the supervisor takes one of its three cases. A receive is enabled when its channel holds
  a value; the deadline may fire at any moment; no case is enabled once the call has
  returned, or before the goroutine exists.
\<close>

datatype move = Unit | SelectOut | SelectErr | SelectDone

definition select_step :: "'o \<Rightarrow> event list \<Rightarrow> os_env \<Rightarrow> move \<Rightarrow> 'o state \<Rightarrow> 'o state option" where
  "select_step zero logs env m s =
     (if returned s \<noteq> None \<or> upc s = NotStarted then None
      else case m of
        Unit \<Rightarrow> None
      | SelectOut \<Rightarrow>
          (case outChan s of
             [] \<Rightarrow> None
           | v # rest \<Rightarrow> Some (s\<lparr>outChan := rest, returned := Some (v, None)\<rparr>))
      | SelectErr \<Rightarrow>
          (case errChan s of
             [] \<Rightarrow> None
           | e # rest \<Rightarrow> Some (s\<lparr>errChan := rest, returned := Some (zero, Some e)\<rparr>))
      | SelectDone \<Rightarrow> Some (ctx_Done zero logs env s))"

definition step :: "os_env \<Rightarrow> move \<Rightarrow> Output state \<Rightarrow> Output state option" where
  "step env m s = (case m of Unit \<Rightarrow> unit_step env s | _ \<Rightarrow> select_step Output_zero [] env m s)"

definition step_v0 :: "os_env \<Rightarrow> move \<Rightarrow> Output_v0 state \<Rightarrow> Output_v0 state option" where
  "step_v0 env m s =
     (case m of Unit \<Rightarrow> unit_step_v0 env s | _ \<Rightarrow> select_step Output_v0_zero [EvWarn] env m s)"

fun run :: "(move \<Rightarrow> 's \<Rightarrow> 's option) \<Rightarrow> move list \<Rightarrow> 's \<Rightarrow> 's" where
  "run stp [] s = s"
| "run stp (m # ms) s = run stp ms (case stp m s of None \<Rightarrow> s | Some s' \<Rightarrow> s')"

subsection \<open>Spawn\<close>

text \<open>
  \<open>world\<close> gives the behaviour of the operating system for each command; \<open>proc\<close> is the
  behaviour of the command as Spawn configures it (a process group of its own).
\<close>

definition proc :: "(Cmd \<Rightarrow> os_env) \<Rightarrow> Cmd \<Rightarrow> os_env" where
  "proc world cmd = world (cmd\<lparr>Setpgid := True\<rparr>)"

text \<open>
  The state in which the call is left by a schedule. \<open>returned\<close> is what the call has
  returned (the output and the error, None for nil), or None while it is still blocked in
  its select.
\<close>

definition Spawn :: "(Cmd \<Rightarrow> os_env) \<Rightarrow> move list \<Rightarrow> Cmd \<Rightarrow> Output state" where
  "Spawn world sched cmd =
     (let env = proc world cmd in
      case StdoutPipe_err env of
        Some e \<Rightarrow> initial\<lparr>returned := Some (Output_zero, Some e)\<rparr>
      | None \<Rightarrow>
      (case StderrPipe_err env of
        Some e \<Rightarrow> initial\<lparr>returned := Some (Output_zero, Some e)\<rparr>
      | None \<Rightarrow>
      (case Start_err env of
        Some e \<Rightarrow> initial\<lparr>returned := Some (Output_zero, Some e),
                          trace := [EvStart (cmd\<lparr>Setpgid := True\<rparr>)]\<rparr>
      | None \<Rightarrow>
          run (step env) sched
            (initial\<lparr>upc := ReadStdout, trace := [EvStart (cmd\<lparr>Setpgid := True\<rparr>)]\<rparr>))))"

definition Spawn_v0 :: "(Cmd \<Rightarrow> os_env) \<Rightarrow> move list \<Rightarrow> Cmd \<Rightarrow> Output_v0 state" where
  "Spawn_v0 world sched cmd =
     (let env = proc world cmd in
      case StdoutPipe_err env of
        Some e \<Rightarrow> initial\<lparr>returned := Some (Output_v0_zero, Some e)\<rparr>
      | None \<Rightarrow>
      (case StderrPipe_err env of
        Some e \<Rightarrow> initial\<lparr>returned := Some (Output_v0_zero, Some e)\<rparr>
      | None \<Rightarrow>
      (case Start_err env of
        Some e \<Rightarrow> initial\<lparr>returned := Some (Output_v0_zero, Some e),
                          trace := [EvStart (cmd\<lparr>Setpgid := True\<rparr>)]\<rparr>
      | None \<Rightarrow>
          run (step_v0 env) sched
            (initial\<lparr>upc := ReadStdout, trace := [EvStart (cmd\<lparr>Setpgid := True\<rparr>)]\<rparr>))))"

subsection \<open>The entry points\<close>

text \<open>
  What a call has done when the schedule ends: it has panicked, it is still blocked in the
  select of Spawn, or it has returned. Beside the outcome each entry point gives the
  trace of what it did to the operating system.
\<close>

datatype 'a outcome = Panic | Blocked | Return 'a

text \<open>\<^verbatim>\<open>exec.go\<close>: the command text is the third element of the argument vector as it is.\<close>

definition RunTimedSh ::
  "(Cmd \<Rightarrow> os_env) \<Rightarrow> move list \<Rightarrow> string \<Rightarrow> (string \<times> err option) outcome \<times> event list" where
  "RunTimedSh world sched command =
     (let s = Spawn world sched (exec_Command ''sh'' [''-c'', command]) in
      (case returned s of
         None \<Rightarrow> Blocked
       | Some (output, err) \<Rightarrow>
           (case err of Some e \<Rightarrow> Return ([], Some e) | None \<Rightarrow> Return (Combine output, None)),
       trace s))"

text \<open>\<open>environ\<close> is what \<^verbatim>\<open>os.Environ()\<close> returns.\<close>

definition RunTimed ::
  "(Cmd \<Rightarrow> os_env) \<Rightarrow> string list \<Rightarrow> move list \<Rightarrow> string list \<Rightarrow> string \<Rightarrow> string list
     \<Rightarrow> (Output \<times> err option) outcome \<times> event list" where
  "RunTimed world environ sched env cmd args =
     (let command = (exec_Command cmd args)\<lparr>Env := Some (environ @ env)\<rparr>;
          s = Spawn world sched command in
      (case returned s of
         None \<Rightarrow> Blocked
       | Some (output, err) \<Rightarrow>
           (case err of Some e \<Rightarrow> Return (Output_zero, Some e) | None \<Rightarrow> Return (output, None)),
       trace s))"

text \<open>\<^verbatim>\<open>fmt.Sprintf(`'%s'`, command)\<close>: the text between two single-quote characters.\<close>

definition Sprintf_quoted :: "string \<Rightarrow> string" where
  "Sprintf_quoted command = [CHR 0x27] @ command @ [CHR 0x27]"

text \<open>The first older copy with entry points.\<close>

definition RunTimedSh_quoted ::
  "(Cmd \<Rightarrow> os_env) \<Rightarrow> move list \<Rightarrow> string \<Rightarrow> (string \<times> err option) outcome \<times> event list" where
  "RunTimedSh_quoted world sched command =
     (let s = Spawn_v0 world sched (exec_Command ''sh'' [''-c'', Sprintf_quoted command]) in
      (case returned s of
         None \<Rightarrow> Blocked
       | Some (output, err) \<Rightarrow>
           (case err of Some e \<Rightarrow> Return ([], Some e) | None \<Rightarrow> Return (Combine_v0 output, None)),
       trace s))"

definition RunTimed_args ::
  "(Cmd \<Rightarrow> os_env) \<Rightarrow> move list \<Rightarrow> string \<Rightarrow> string list
     \<Rightarrow> (string \<times> err option) outcome \<times> event list" where
  "RunTimed_args world sched cmd args =
     (let s = Spawn_v0 world sched (exec_Command cmd args) in
      (case returned s of
         None \<Rightarrow> Blocked
       | Some (output, err) \<Rightarrow>
           (case err of Some e \<Rightarrow> Return ([], Some e) | None \<Rightarrow> Return (Combine_v0 output, None)),
       trace s))"

text \<open>The second older copy with entry points.\<close>

definition RunShTimed ::
  "(Cmd \<Rightarrow> os_env) \<Rightarrow> move list \<Rightarrow> string \<Rightarrow> (string \<times> err option) outcome \<times> event list" where
  "RunShTimed world sched command =
     (let s = Spawn_v0 world sched (exec_Command ''sh'' [''-c'', Sprintf_quoted command]) in
      (case returned s of
         None \<Rightarrow> Blocked
       | Some (output, err) \<Rightarrow>
           (case err of Some e \<Rightarrow> Return ([], Some e) | None \<Rightarrow> Return (Combine_v0 output, None)),
       trace s))"

text \<open>
  \<^verbatim>\<open>strings.Fields\<close> splits a string around each run of white space as \<^verbatim>\<open>unicode.IsSpace\<close>
  defines it. A Go string is a sequence of bytes read as UTF-8, so the white-space
  characters are listed by their encodings: U+0009 to U+000D, U+0020, U+0085, U+00A0,
  U+1680, U+2000 to U+200A, U+2028, U+2029, U+202F, U+205F and U+3000.
\<close>

definition unicode_space :: "string list" where
  "unicode_space =
     [[CHR 0x09], [CHR 0x0A], [CHR 0x0B], [CHR 0x0C], [CHR 0x0D], [CHR 0x20],
      [CHR 0xC2, CHR 0x85], [CHR 0xC2, CHR 0xA0],
      [CHR 0xE1, CHR 0x9A, CHR 0x80],
      [CHR 0xE2, CHR 0x80, CHR 0x80], [CHR 0xE2, CHR 0x80, CHR 0x81],
      [CHR 0xE2, CHR 0x80, CHR 0x82], [CHR 0xE2, CHR 0x80, CHR 0x83],
      [CHR 0xE2, CHR 0x80, CHR 0x84], [CHR 0xE2, CHR 0x80, CHR 0x85],
      [CHR 0xE2, CHR 0x80, CHR 0x86], [CHR 0xE2, CHR 0x80, CHR 0x87],
      [CHR 0xE2, CHR 0x80, CHR 0x88], [CHR 0xE2, CHR 0x80, CHR 0x89],
      [CHR 0xE2, CHR 0x80, CHR 0x8A],
      [CHR 0xE2, CHR 0x80, CHR 0xA8], [CHR 0xE2, CHR 0x80, CHR 0xA9],
      [CHR 0xE2, CHR 0x80, CHR 0xAF], [CHR 0xE2, CHR 0x81, CHR 0x9F],
      [CHR 0xE3, CHR 0x80, CHR 0x80]]"

text \<open>The number of bytes of the white-space character the string starts with, or 0.\<close>

definition space_width :: "string \<Rightarrow> nat" where
  "space_width s =
     (case find (\<lambda>e. take (length e) s = e) unicode_space of
        None \<Rightarrow> 0
      | Some e \<Rightarrow> length e)"

text \<open>
  The scan of \<^verbatim>\<open>strings.Fields\<close>: \<open>cur\<close> is the field being read. A white-space character
  closes it; any other byte joins it.
\<close>

function fields_from :: "string \<Rightarrow> string \<Rightarrow> string list" where
  "fields_from cur s =
     (if s = [] then (if cur = [] then [] else [cur])
      else if space_width s = 0 then fields_from (cur @ [hd s]) (tl s)
      else (if cur = [] then [] else [cur]) @ fields_from [] (drop (space_width s) s))"
  by pat_completeness auto
termination
  by (relation "measure (\<lambda>(cur, s). length s)") auto

definition Fields :: "string \<Rightarrow> string list" where
  "Fields s = fields_from [] s"

text \<open>
  The string is empty or holds white space only.
\<close>

function only_space :: "string \<Rightarrow> bool" where
  "only_space s =
     (if s = [] then True
      else if space_width s = 0 then False
      else only_space (drop (space_width s) s))"
  by pat_completeness auto
termination
  by (relation "measure length") auto

text \<open>
  The tokenizing entry point: the first field is indexed whatever the number of fields,
  which panics on an empty slice.
\<close>

definition RunTimed_fields ::
  "(Cmd \<Rightarrow> os_env) \<Rightarrow> move list \<Rightarrow> string \<Rightarrow> (string \<times> err option) outcome \<times> event list" where
  "RunTimed_fields world sched command =
     (let commandFields = Fields command;
          args = (if length commandFields > 1 then drop 1 commandFields else [])
      in case commandFields of
           [] \<Rightarrow> (Panic, [])
         | bin # rest \<Rightarrow>
             (let s = Spawn_v0 world sched (exec_Command bin args) in
              (case returned s of
                 None \<Rightarrow> Blocked
               | Some (output, err) \<Rightarrow>
                   (case err of
                      Some e \<Rightarrow> Return ([], Some e)
                    | None \<Rightarrow> Return (Combine_v0 output, None)),
               trace s)))"

subsection \<open>Launch, and example processes\<close>

text \<open>
  The error of the first of the three launch calls that fails (pipe for the standard
  output, pipe for the standard error, start), in the order of the source.
\<close>

definition launch_err :: "os_env \<Rightarrow> err option" where
  "launch_err env =
     (case StdoutPipe_err env of
        Some e \<Rightarrow> Some e
      | None \<Rightarrow> (case StderrPipe_err env of Some e \<Rightarrow> Some e | None \<Rightarrow> Start_err env))"

text \<open>The state in which the \<^verbatim>\<open>go\<close> statement leaves the call.\<close>

definition started :: "Cmd \<Rightarrow> 'o state" where
  "started cmd = initial\<lparr>upc := ReadStdout, trace := [EvStart (cmd\<lparr>Setpgid := True\<rparr>)]\<rparr>"

text \<open>
  A process that starts, writes \<open>out\<close> and \<open>errtext\<close>, and exits with \<open>code\<close>; signals
  reach it. The theorems below are evaluated on it and on variations of it.
\<close>

definition proc_exits :: "string \<Rightarrow> string \<Rightarrow> int \<Rightarrow> os_env" where
  "proc_exits out errtext code =
     \<lparr>StdoutPipe_err = None, StderrPipe_err = None, Start_err = None, Pid = 4242,
      ReadAll_stdout = (out, None), ReadAll_stderr = (errtext, None),
      Wait_err = (if code = 0 then None else Some (ExitError code)),
      Kill = (\<lambda>target sig. None)\<rparr>"

subsection \<open>Invariants of the executions\<close>

text \<open>
  The states of an execution in which both reads and the wait succeed and the deadline
  does not fire, for the output \<open>out\<close> the goroutine is to deliver.
\<close>

definition on_course :: "Output \<Rightarrow> Output state \<Rightarrow> bool" where
  "on_course out s =
     (errChan s = [] \<and>
      (case upc s of
         ReadStdout \<Rightarrow> outChan s = [] \<and> returned s = None
       | ReadStderr \<Rightarrow> stdOutput s = StdOut out \<and> outChan s = [] \<and> returned s = None
       | CallWait \<Rightarrow>
           stdOutput s = StdOut out \<and> stdError s = StdErr out \<and> outChan s = [] \<and>
           returned s = None
       | SendOut \<Rightarrow>
           stdOutput s = StdOut out \<and> stdError s = StdErr out \<and> exitCode s = ExitCode out \<and>
           outChan s = [] \<and> returned s = None
       | Exited \<Rightarrow>
           (outChan s = [out] \<and> returned s = None) \<or>
           (outChan s = [] \<and> returned s = Some (out, None))
       | _ \<Rightarrow> False))"

text \<open>
  The states of an execution in which no read and no wait fails, whatever the deadline
  does: nothing is sent on the error channel, and an error the call returns is a timeout.
\<close>

definition no_failure :: "Output state \<Rightarrow> bool" where
  "no_failure s =
     (errChan s = [] \<and>
      (case upc s of
         SendErrStdout x \<Rightarrow> False | SendErrStderr x \<Rightarrow> False | SendErrWait x \<Rightarrow> False
       | _ \<Rightarrow> True) \<and>
      (case returned s of
         Some (out, Some e) \<Rightarrow> errors_Is e ErrTimeout \<and> as_ExitError e = None
       | _ \<Rightarrow> True))"

text \<open>How far the goroutine has come.\<close>

fun rank :: "pc \<Rightarrow> nat" where
  "rank ReadStdout = 0"
| "rank ReadStderr = 1"
| "rank CallWait = 2"
| "rank SendOut = 3"
| "rank Exited = 4"
| "rank p = 0"

text \<open>
  The older \<^verbatim>\<open>Spawn\<close>: what the goroutine holds, puts in the output channel and lets the
  call return without error is what the two reads returned.
\<close>

fun after_stdout :: "pc \<Rightarrow> bool" where
  "after_stdout NotStarted = False"
| "after_stdout ReadStdout = False"
| "after_stdout p = True"

fun after_stderr :: "pc \<Rightarrow> bool" where
  "after_stderr NotStarted = False"
| "after_stderr ReadStdout = False"
| "after_stderr (SendErrStdout x) = False"
| "after_stderr ReadStderr = False"
| "after_stderr p = True"

definition captured_v0 :: "os_env \<Rightarrow> Output_v0 state \<Rightarrow> bool" where
  "captured_v0 env s =
     ((after_stdout (upc s) \<longrightarrow> stdOutput s = fst (ReadAll_stdout env)) \<and>
      (after_stderr (upc s) \<longrightarrow> stdError s = fst (ReadAll_stderr env)) \<and>
      (\<forall>v \<in> set (outChan s).
          v = \<lparr>StdOut_v0 = fst (ReadAll_stdout env), StdErr_v0 = fst (ReadAll_stderr env)\<rparr>) \<and>
      (\<forall>v. returned s = Some (v, None) \<longrightarrow>
          v = \<lparr>StdOut_v0 = fst (ReadAll_stdout env), StdErr_v0 = fst (ReadAll_stderr env)\<rparr>))"

text \<open>A byte that starts no white-space character.\<close>

definition plain :: "char \<Rightarrow> bool" where
  "plain c = (c \<notin> set (map hd unicode_space))"

subsection \<open>The statements of the goroutine, in order\<close>

text \<open>
  The events of the goroutine of \<^verbatim>\<open>exec.go\<close> in the order of its text: the read of the
  standard output, the send of its error if it failed, the read of the standard error,
  the send of its error if it failed, the wait, and the send of the wait error or of the
  output. \<open>script_left\<close> is what remains of it at a program counter.
\<close>

fun is_unit_event :: "event \<Rightarrow> bool" where
  "is_unit_event (EvStart c) = False"
| "is_unit_event (EvKill t sig) = False"
| "is_unit_event EvWarn = False"
| "is_unit_event e = True"

definition send_if_failed :: "err option \<Rightarrow> event list" where
  "send_if_failed r = (case r of None \<Rightarrow> [] | Some x \<Rightarrow> [EvSendErr x])"

definition after_wait :: "err option \<Rightarrow> event list" where
  "after_wait w =
     (case w of
        None \<Rightarrow> [EvSendOut]
      | Some x \<Rightarrow> (case as_ExitError x of Some c \<Rightarrow> [EvSendOut] | None \<Rightarrow> [EvSendErr x]))"

definition script :: "os_env \<Rightarrow> event list" where
  "script env =
     [EvReadAll Stdout (snd (ReadAll_stdout env))] @ send_if_failed (snd (ReadAll_stdout env))
     @ [EvReadAll Stderr (snd (ReadAll_stderr env))] @ send_if_failed (snd (ReadAll_stderr env))
     @ [EvWait (Wait_err env)] @ after_wait (Wait_err env)"

definition script_left :: "os_env \<Rightarrow> pc \<Rightarrow> event list option" where
  "script_left env p =
     (case p of
        NotStarted \<Rightarrow> None
      | ReadStdout \<Rightarrow> Some (script env)
      | SendErrStdout x \<Rightarrow>
          (if snd (ReadAll_stdout env) = Some x then
             Some ([EvSendErr x, EvReadAll Stderr (snd (ReadAll_stderr env))]
                   @ send_if_failed (snd (ReadAll_stderr env))
                   @ [EvWait (Wait_err env)] @ after_wait (Wait_err env))
           else None)
      | ReadStderr \<Rightarrow>
          Some ([EvReadAll Stderr (snd (ReadAll_stderr env))]
                @ send_if_failed (snd (ReadAll_stderr env))
                @ [EvWait (Wait_err env)] @ after_wait (Wait_err env))
      | SendErrStderr x \<Rightarrow>
          (if snd (ReadAll_stderr env) = Some x then
             Some ([EvSendErr x, EvWait (Wait_err env)] @ after_wait (Wait_err env))
           else None)
      | CallWait \<Rightarrow> Some ([EvWait (Wait_err env)] @ after_wait (Wait_err env))
      | SendErrWait x \<Rightarrow>
          (if Wait_err env = Some x \<and> as_ExitError x = None then Some [EvSendErr x] else None)
      | SendOut \<Rightarrow> (if after_wait (Wait_err env) = [EvSendOut] then Some [EvSendOut] else None)
      | Exited \<Rightarrow> Some [])"

definition on_script :: "os_env \<Rightarrow> Output state \<Rightarrow> bool" where
  "on_script env s =
     (case script_left env (upc s) of
        None \<Rightarrow> False
      | Some rest \<Rightarrow> filter is_unit_event (trace s) @ rest = script env)"

fun is_wait :: "event \<Rightarrow> bool" where
  "is_wait (EvWait w) = True"
| "is_wait e = False"

section \<open>Properties\<close>

subsection \<open>Schedules\<close>

lemma run_append: "run stp (a @ b) s = run stp b (run stp a s)"
  by (induction a arbitrary: s) simp_all

text \<open>A property that every enabled move keeps holds after every schedule.\<close>

lemma run_invariant:
  assumes "P s" and "\<And>m t t'. P t \<Longrightarrow> stp m t = Some t' \<Longrightarrow> P t'"
  shows "P (run stp ms s)"
  using assms(1)
proof (induction ms arbitrary: s)
  case Nil
  then show ?case by simp
next
  case (Cons m ms)
  show ?case
  proof (cases "stp m s")
    case None
    with Cons show ?thesis by simp
  next
    case (Some t')
    with Cons assms(2) [of s m t'] show ?thesis by simp
  qed
qed

lemma Spawn_launched:
  "launch_err (proc world cmd) = None \<Longrightarrow>
   Spawn world sched cmd = run (step (proc world cmd)) sched (started cmd)"
  by (simp add: Spawn_def launch_err_def started_def split: option.splits)

lemma Spawn_v0_launched:
  "launch_err (proc world cmd) = None \<Longrightarrow>
   Spawn_v0 world sched cmd = run (step_v0 (proc world cmd)) sched (started cmd)"
  by (simp add: Spawn_v0_def launch_err_def started_def split: option.splits)

lemma Spawn_not_launched:
  "launch_err (proc world cmd) = Some e \<Longrightarrow>
   returned (Spawn world sched cmd) = Some (Output_zero, Some e) \<and>
   upc (Spawn world sched cmd) = NotStarted \<and>
   outChan (Spawn world sched cmd) = [] \<and> errChan (Spawn world sched cmd) = [] \<and>
   set (trace (Spawn world sched cmd)) \<subseteq> {EvStart (cmd\<lparr>Setpgid := True\<rparr>)}"
  by (auto simp add: Spawn_def launch_err_def initial_def split: option.splits)

text \<open>Once the call has returned, no move changes what it returned.\<close>

lemma unit_step_returned: "unit_step env s = Some s' \<Longrightarrow> returned s' = returned s"
  by (auto simp add: unit_step_def chan_send_def
      split: pc.splits option.splits prod.splits if_splits)

lemma unit_step_v0_returned: "unit_step_v0 env s = Some s' \<Longrightarrow> returned s' = returned s"
  by (auto simp add: unit_step_v0_def chan_send_def
      split: pc.splits option.splits prod.splits if_splits)

lemma select_step_returned: "returned s \<noteq> None \<Longrightarrow> select_step z l env m s = None"
  by (simp add: select_step_def)

lemma step_returned:
  "returned s = Some r \<Longrightarrow> step env m s = Some s' \<Longrightarrow> returned s' = Some r"
  by (cases m) (auto simp add: step_def select_step_returned dest: unit_step_returned)

lemma step_v0_returned:
  "returned s = Some r \<Longrightarrow> step_v0 env m s = Some s' \<Longrightarrow> returned s' = Some r"
  by (cases m) (auto simp add: step_v0_def select_step_returned dest: unit_step_v0_returned)

lemma run_step_returned: "returned s = Some r \<Longrightarrow> returned (run (step env) ms s) = Some r"
  by (rule run_invariant [where P = "\<lambda>t. returned t = Some r"]) (auto dest: step_returned)

lemma run_step_v0_returned:
  "returned s = Some r \<Longrightarrow> returned (run (step_v0 env) ms s) = Some r"
  by (rule run_invariant [where P = "\<lambda>t. returned t = Some r"]) (auto dest: step_v0_returned)

lemma errors_Is_refl: "errors_Is e e"
  by (cases e) simp_all

lemma unit_step_started: "unit_step env s = Some s' \<Longrightarrow> upc s' \<noteq> NotStarted"
  by (auto simp add: unit_step_def chan_send_def
      split: pc.splits option.splits prod.splits if_splits)

lemma step_started: "upc s \<noteq> NotStarted \<Longrightarrow> step env m s = Some s' \<Longrightarrow> upc s' \<noteq> NotStarted"
  by (cases m) (auto simp add: step_def select_step_def ctx_Done_def unit_step_started
      split: if_splits list.splits option.splits)

lemma run_step_started: "upc (run (step env) ms (started cmd)) \<noteq> NotStarted"
  by (rule run_invariant [where P = "\<lambda>t. upc t \<noteq> NotStarted"])
     (auto simp add: started_def initial_def dest: step_started)

lemma step_SelectDone:
  "returned s = None \<Longrightarrow> upc s \<noteq> NotStarted \<Longrightarrow>
   step env SelectDone s = Some (ctx_Done Output_zero [] env s)"
  by (simp add: step_def select_step_def)

lemma ctx_Done_returned: "returned (ctx_Done z l env s) \<noteq> None"
  by (simp add: ctx_Done_def errors_Join_def List.map_filter_simps split: option.splits)

lemma ctx_Done_frame:
  "upc (ctx_Done z l env s) = upc s \<and> outChan (ctx_Done z l env s) = outChan s \<and>
   errChan (ctx_Done z l env s) = errChan s"
  by (simp add: ctx_Done_def split: option.splits)

text \<open>The deadline case of the select, from a state in which the call is blocked.\<close>

lemma Spawn_SelectDone:
  assumes launch: "launch_err (proc world cmd) = None"
      and pending: "returned (Spawn world pre cmd) = None"
  shows "Spawn world (pre @ [SelectDone]) cmd
           = ctx_Done Output_zero [] (proc world cmd) (Spawn world pre cmd)"
proof -
  have "upc (Spawn world pre cmd) \<noteq> NotStarted"
    unfolding Spawn_launched [OF launch] by (rule run_step_started)
  from step_SelectDone [OF pending this, of "proc world cmd"] show ?thesis
    by (simp add: Spawn_launched [OF launch] run_append)
qed

lemma Spawn_SelectDone_final:
  assumes launch: "launch_err (proc world cmd) = None"
      and pending: "returned (Spawn world pre cmd) = None"
  shows "returned (Spawn world (pre @ SelectDone # post) cmd)
           = returned (ctx_Done Output_zero [] (proc world cmd) (Spawn world pre cmd))"
proof -
  let ?d = "ctx_Done Output_zero [] (proc world cmd) (Spawn world pre cmd)"
  obtain r where r: "returned ?d = Some r"
    using ctx_Done_returned [of Output_zero "[]" "proc world cmd" "Spawn world pre cmd"] by blast
  have "Spawn world (pre @ SelectDone # post) cmd
          = run (step (proc world cmd)) post (Spawn world (pre @ [SelectDone]) cmd)"
    by (simp add: Spawn_launched [OF launch] run_append)
  then show ?thesis
    using run_step_returned [OF r, of "proc world cmd" post] r
    by (simp add: Spawn_SelectDone [OF launch pending])
qed

lemma ctx_Done_timeout:
  "\<exists>e. returned (ctx_Done z l env s) = Some (z, Some e) \<and> errors_Is e ErrTimeout"
  by (simp add: ctx_Done_def errors_Join_def List.map_filter_simps split: option.splits)

subsection \<open>Launch errors\<close>

text \<open>
  C6. When a pipe cannot be created or the command cannot be started, Spawn returns the
  zero output and the error of the first launch call that failed. It has returned
  before any move of a schedule, and whatever the schedule the result is the same: the
  goroutine was never started, both channels stay empty, and the trace holds no read, no
  wait, no send and no signal.
\<close>

theorem Spawn_launch_error:
  assumes "StdoutPipe_err (proc world cmd) \<noteq> None \<or> StderrPipe_err (proc world cmd) \<noteq> None
           \<or> Start_err (proc world cmd) \<noteq> None"
  shows "\<exists>e. launch_err (proc world cmd) = Some e \<and>
             returned (Spawn world [] cmd) = Some (Output_zero, Some e) \<and>
             (\<forall>sched. returned (Spawn world sched cmd) = Some (Output_zero, Some e) \<and>
                      upc (Spawn world sched cmd) = NotStarted \<and>
                      outChan (Spawn world sched cmd) = [] \<and>
                      errChan (Spawn world sched cmd) = [] \<and>
                      set (trace (Spawn world sched cmd)) \<subseteq> {EvStart (cmd\<lparr>Setpgid := True\<rparr>)})"
proof -
  from assms have "launch_err (proc world cmd) \<noteq> None"
    by (auto simp add: launch_err_def split: option.splits)
  then obtain e where e: "launch_err (proc world cmd) = Some e"
    by blast
  from Spawn_not_launched [OF e] show ?thesis
    using e by blast
qed

text \<open>An executable that is not found: the error comes back under every schedule.\<close>

theorem Spawn_launch_error_witness:
  "returned (Spawn (\<lambda>c. (proc_exits [] [] 0)\<lparr>Start_err := Some (OSError ''not found'')\<rparr>)
              [Unit, Unit, SelectOut, SelectErr, SelectDone] (exec_Command ''nosuch'' []))
     = Some (Output_zero, Some (OSError ''not found'')) \<and>
   upc (Spawn (\<lambda>c. (proc_exits [] [] 0)\<lparr>Start_err := Some (OSError ''not found'')\<rparr>)
          [Unit, Unit, SelectOut, SelectErr, SelectDone] (exec_Command ''nosuch'' []))
     = NotStarted"
  using Spawn_launch_error
    [of "\<lambda>c. (proc_exits [] [] 0)\<lparr>Start_err := Some (OSError ''not found'')\<rparr>"
        "exec_Command ''nosuch'' []"]
  by (simp add: proc_def proc_exits_def launch_err_def)

subsection \<open>The deadline\<close>

text \<open>
  C2. Let the command be launched and the call be still blocked in its select after a
  schedule \<open>pre\<close>, and let the select take the \<^verbatim>\<open>ctx.Done()\<close> case next. The supervisor
  sends SIGTERM to the negated process identifier, which is the negated identifier of
  the group the process leads. If that send succeeds the call returns the zero output
  and \<open>ErrTimeout\<close> after this one signal. If it fails the supervisor sends SIGKILL to
  the same target, and returns the zero output and \<open>ErrTimeout\<close> when that succeeds. If
  SIGKILL fails too, with an error \<open>e2\<close>, the call returns the join of \<open>e2\<close>,
  \<open>ErrTimeout\<close> and \<open>ErrFailToKill\<close>, and \<^verbatim>\<open>errors.Is\<close> finds each of the three in it. In
  all cases the supervisor adds nothing but the signals to the trace (it does not wait),
  the goroutine and the channels are where they were, and no later move changes the
  result.
\<close>

theorem Spawn_deadline:
  assumes launch: "launch_err (proc world cmd) = None"
      and pending: "returned (Spawn world pre cmd) = None"
  shows
    "(Kill (proc world cmd) (- Pid (proc world cmd)) SIGTERM = None \<longrightarrow>
        returned (Spawn world (pre @ [SelectDone]) cmd) = Some (Output_zero, Some ErrTimeout) \<and>
        trace (Spawn world (pre @ [SelectDone]) cmd)
          = trace (Spawn world pre cmd) @ [EvKill (- Pid (proc world cmd)) SIGTERM]) \<and>
     (Kill (proc world cmd) (- Pid (proc world cmd)) SIGTERM \<noteq> None \<and>
      Kill (proc world cmd) (- Pid (proc world cmd)) SIGKILL = None \<longrightarrow>
        returned (Spawn world (pre @ [SelectDone]) cmd) = Some (Output_zero, Some ErrTimeout) \<and>
        trace (Spawn world (pre @ [SelectDone]) cmd)
          = trace (Spawn world pre cmd)
            @ [EvKill (- Pid (proc world cmd)) SIGTERM, EvKill (- Pid (proc world cmd)) SIGKILL]) \<and>
     (\<forall>e2. Kill (proc world cmd) (- Pid (proc world cmd)) SIGTERM \<noteq> None \<and>
           Kill (proc world cmd) (- Pid (proc world cmd)) SIGKILL = Some e2 \<longrightarrow>
        returned (Spawn world (pre @ [SelectDone]) cmd)
          = Some (Output_zero, Some (Join [e2, ErrTimeout, ErrFailToKill])) \<and>
        errors_Is (Join [e2, ErrTimeout, ErrFailToKill]) e2 \<and>
        errors_Is (Join [e2, ErrTimeout, ErrFailToKill]) ErrTimeout \<and>
        errors_Is (Join [e2, ErrTimeout, ErrFailToKill]) ErrFailToKill \<and>
        trace (Spawn world (pre @ [SelectDone]) cmd)
          = trace (Spawn world pre cmd)
            @ [EvKill (- Pid (proc world cmd)) SIGTERM, EvKill (- Pid (proc world cmd)) SIGKILL]) \<and>
     upc (Spawn world (pre @ [SelectDone]) cmd) = upc (Spawn world pre cmd) \<and>
     outChan (Spawn world (pre @ [SelectDone]) cmd) = outChan (Spawn world pre cmd) \<and>
     errChan (Spawn world (pre @ [SelectDone]) cmd) = errChan (Spawn world pre cmd) \<and>
     (\<forall>post. returned (Spawn world (pre @ SelectDone # post) cmd)
               = returned (Spawn world (pre @ [SelectDone]) cmd))"
proof -
  let ?env = "proc world cmd"
  let ?s = "Spawn world pre cmd"
  show ?thesis
    unfolding Spawn_SelectDone [OF launch pending]
    using Spawn_SelectDone_final [OF launch pending]
      ctx_Done_frame [of Output_zero "[]" ?env ?s]
    by (auto simp add: ctx_Done_def errors_Join_def List.map_filter_simps errors_Is_refl)
qed

text \<open>
  A process that no signal reaches (both sends fail), with the deadline firing after the
  first read of the goroutine.
\<close>

theorem Spawn_deadline_witness:
  "returned (Spawn (\<lambda>c. (proc_exits [] [] 0)\<lparr>Kill := (\<lambda>t sig. Some (OSError (if sig = SIGTERM then ''ESRCH'' else ''EPERM'')))\<rparr>)
              [Unit, SelectDone] (exec_Command ''sleep'' [''10'']))
     = Some (Output_zero, Some (Join [OSError ''EPERM'', ErrTimeout, ErrFailToKill])) \<and>
   trace (Spawn (\<lambda>c. (proc_exits [] [] 0)\<lparr>Kill := (\<lambda>t sig. Some (OSError (if sig = SIGTERM then ''ESRCH'' else ''EPERM'')))\<rparr>)
              [Unit, SelectDone] (exec_Command ''sleep'' [''10'']))
     = [EvStart ((exec_Command ''sleep'' [''10''])\<lparr>Setpgid := True\<rparr>), EvReadAll Stdout None,
        EvKill (- 4242) SIGTERM, EvKill (- 4242) SIGKILL]"
  using Spawn_deadline
    [of "\<lambda>c. (proc_exits [] [] 0)\<lparr>Kill := (\<lambda>t sig. Some (OSError (if sig = SIGTERM then ''ESRCH'' else ''EPERM'')))\<rparr>"
        "exec_Command ''sleep'' [''10'']" "[Unit]"]
  by (simp add: proc_def proc_exits_def launch_err_def Spawn_def step_def unit_step_def initial_def)

subsection \<open>Exit status\<close>

lemma run_invariant_on:
  assumes "P s" and "\<And>m t t'. m \<in> set ms \<Longrightarrow> P t \<Longrightarrow> stp m t = Some t' \<Longrightarrow> P t'"
  shows "P (run stp ms s)"
  using assms
proof (induction ms arbitrary: s)
  case Nil
  then show ?case by simp
next
  case (Cons m ms)
  have later: "P t'" if "k \<in> set ms" "P t" "stp k t = Some t'" for k t t'
    using Cons.prems(2) [of k t t'] that by simp
  show ?case
  proof (cases "stp m s")
    case None
    with Cons.IH [OF Cons.prems(1) later] show ?thesis by simp
  next
    case (Some t')
    have "P t'" using Cons.prems(2) [of m s t'] Cons.prems(1) Some by simp
    with Cons.IH [OF _ later] Some show ?thesis by simp
  qed
qed

lemma on_course_step:
  assumes env: "ReadAll_stdout env = (StdOut out, None)" "ReadAll_stderr env = (StdErr out, None)"
      "Wait_err env = None \<and> ExitCode out = 0 \<or> Wait_err env = Some (ExitError (ExitCode out))"
    and m: "m \<noteq> SelectDone" and s: "on_course out s" and stp: "step env m s = Some s'"
  shows "on_course out s'"
proof (cases m)
  case Unit
  with s stp env show ?thesis
    by (cases "upc s")
      (auto simp add: on_course_def step_def unit_step_def chan_send_def split: if_splits)
next
  case SelectOut
  with s stp show ?thesis
    by (cases "upc s")
      (auto simp add: on_course_def step_def select_step_def split: if_splits list.splits)
next
  case SelectErr
  with s stp show ?thesis
    by (cases "upc s")
      (auto simp add: on_course_def step_def select_step_def split: if_splits list.splits)
next
  case SelectDone
  with m show ?thesis by simp
qed

lemma on_course_Unit:
  assumes env: "ReadAll_stdout env = (StdOut out, None)" "ReadAll_stderr env = (StdErr out, None)"
      "Wait_err env = None \<and> ExitCode out = 0 \<or> Wait_err env = Some (ExitError (ExitCode out))"
    and s: "on_course out s"
  shows "on_course out (run (step env) [Unit] s) \<and>
         min 4 (Suc (rank (upc s))) \<le> rank (upc (run (step env) [Unit] s))"
proof
  show "on_course out (run (step env) [Unit] s)"
    using on_course_step [OF env _ s, of Unit] s by (cases "step env Unit s") simp_all
  show "min 4 (Suc (rank (upc s))) \<le> rank (upc (run (step env) [Unit] s))"
    using s env
    by (cases "upc s")
      (auto simp add: on_course_def step_def unit_step_def chan_send_def)
qed

lemma on_course_finish:
  assumes env: "ReadAll_stdout env = (StdOut out, None)" "ReadAll_stderr env = (StdErr out, None)"
      "Wait_err env = None \<and> ExitCode out = 0 \<or> Wait_err env = Some (ExitError (ExitCode out))"
    and s: "on_course out s"
  shows "returned (run (step env) [Unit, Unit, Unit, Unit, SelectOut] s) = Some (out, None)"
proof -
  define s1 where "s1 = run (step env) [Unit] s"
  define s2 where "s2 = run (step env) [Unit] s1"
  define s3 where "s3 = run (step env) [Unit] s2"
  define s4 where "s4 = run (step env) [Unit] s3"
  note u = on_course_Unit [OF env]
  have 1: "on_course out s1 \<and> 1 \<le> rank (upc s1)"
    using u [OF s] unfolding s1_def by (simp del: run.simps)
  have 2: "on_course out s2 \<and> 2 \<le> rank (upc s2)"
    using u [of s1] 1 unfolding s2_def by (simp del: run.simps add: min_def split: if_splits)
  have 3: "on_course out s3 \<and> 3 \<le> rank (upc s3)"
    using u [of s2] 2 unfolding s3_def by (simp del: run.simps add: min_def split: if_splits)
  have 4: "on_course out s4 \<and> 4 \<le> rank (upc s4)"
    using u [of s3] 3 unfolding s4_def by (simp del: run.simps add: min_def split: if_splits)
  have ex: "upc s4 = Exited"
    using 4 by (cases "upc s4") simp_all
  have fin: "returned (run (step env) [SelectOut] s4) = Some (out, None)"
    using 4 ex by (auto simp add: on_course_def step_def select_step_def)
  have "run (step env) ([Unit] @ [Unit] @ [Unit] @ [Unit] @ [SelectOut]) s
          = run (step env) [SelectOut] s4"
    unfolding run_append s1_def s2_def s3_def s4_def ..
  with fin show ?thesis by simp
qed

lemma no_failure_step:
  assumes env: "snd (ReadAll_stdout env) = None" "snd (ReadAll_stderr env) = None"
      "Wait_err env = None \<or> Wait_err env = Some (ExitError code)"
    and s: "no_failure s" and stp: "step env m s = Some s'"
  shows "no_failure s'"
proof (cases m)
  case Unit
  with s stp env show ?thesis
    by (cases "upc s"; cases "ReadAll_stdout env"; cases "ReadAll_stderr env")
      (auto simp add: no_failure_def step_def unit_step_def chan_send_def split: if_splits)
next
  case SelectOut
  with s stp show ?thesis
    by (auto simp add: no_failure_def step_def select_step_def split: if_splits list.splits)
next
  case SelectErr
  with s stp show ?thesis
    by (auto simp add: no_failure_def step_def select_step_def split: if_splits list.splits)
next
  case SelectDone
  with s stp show ?thesis
    by (auto simp add: no_failure_def step_def select_step_def ctx_Done_def errors_Join_def
        List.map_filter_simps split: if_splits option.splits)
qed

lemma on_course_started: "on_course out (started cmd)"
  by (simp add: on_course_def started_def initial_def)

lemma no_failure_started: "no_failure (started cmd)"
  by (simp add: no_failure_def started_def initial_def)

text \<open>
  X2. In \<^verbatim>\<open>exec.go\<close>, let the command be launched, both reads end without error, and the
  wait report an exit status \<open>code\<close>: nil for 0, an exit error otherwise. In every execution in which
  the deadline does not fire, Spawn has either not returned yet or returned, with a nil
  error, the output made of the two captured texts and \<open>code\<close>; and it does return it:
  from wherever such an execution stands, four statements of the goroutine and the
  receive of the select end the call with that result. Under every schedule, an error
  that Spawn returns comes from the deadline case, is a timeout, and is not an exit
  error: a non-zero exit status is never returned as an error.
\<close>

theorem Spawn_exit_status:
  assumes launch: "launch_err (proc world cmd) = None"
    and out: "snd (ReadAll_stdout (proc world cmd)) = None"
    and err: "snd (ReadAll_stderr (proc world cmd)) = None"
    and wait: "Wait_err (proc world cmd) = None \<and> code = 0 \<or>
               Wait_err (proc world cmd) = Some (ExitError code)"
  shows
    "(\<forall>sched. SelectDone \<notin> set sched \<longrightarrow>
        (returned (Spawn world sched cmd) = None \<or>
         returned (Spawn world sched cmd)
           = Some (\<lparr>StdOut = fst (ReadAll_stdout (proc world cmd)),
                    StdErr = fst (ReadAll_stderr (proc world cmd)), ExitCode = code\<rparr>, None)) \<and>
        returned (Spawn world (sched @ [Unit, Unit, Unit, Unit, SelectOut]) cmd)
          = Some (\<lparr>StdOut = fst (ReadAll_stdout (proc world cmd)),
                   StdErr = fst (ReadAll_stderr (proc world cmd)), ExitCode = code\<rparr>, None)) \<and>
     (\<forall>sched out e. returned (Spawn world sched cmd) = Some (out, Some e) \<longrightarrow>
        SelectDone \<in> set sched \<and> errors_Is e ErrTimeout \<and> as_ExitError e = None)"
proof -
  let ?env = "proc world cmd"
  let ?out = "\<lparr>StdOut = fst (ReadAll_stdout ?env), StdErr = fst (ReadAll_stderr ?env),
               ExitCode = code\<rparr>"
  have env: "ReadAll_stdout ?env = (StdOut ?out, None)" "ReadAll_stderr ?env = (StdErr ?out, None)"
    "Wait_err ?env = None \<and> ExitCode ?out = 0 \<or> Wait_err ?env = Some (ExitError (ExitCode ?out))"
    using out err wait by (simp_all add: prod_eq_iff)
  have course: "on_course ?out (Spawn world sched cmd)" if "SelectDone \<notin> set sched" for sched
    unfolding Spawn_launched [OF launch]
  proof (rule run_invariant_on [where P = "on_course ?out"])
    show "on_course ?out (started cmd)" by (rule on_course_started)
  next
    fix m t t'
    assume "m \<in> set sched" "on_course ?out t" "step ?env m t = Some t'"
    with that have "m \<noteq> SelectDone" by auto
    then show "on_course ?out t'"
      using on_course_step [OF env] \<open>on_course ?out t\<close> \<open>step ?env m t = Some t'\<close> by blast
  qed
  have safe: "returned (Spawn world sched cmd) = None \<or>
              returned (Spawn world sched cmd) = Some (?out, None)"
    if "SelectDone \<notin> set sched" for sched
    using course [OF that]
    by (cases "upc (Spawn world sched cmd)") (auto simp add: on_course_def)
  have live: "returned (Spawn world (sched @ [Unit, Unit, Unit, Unit, SelectOut]) cmd)
                = Some (?out, None)"
    if "SelectDone \<notin> set sched" for sched
    using on_course_finish [OF env course [OF that]]
    by (simp only: Spawn_launched [OF launch] run_append)
  have nf: "no_failure (Spawn world sched cmd)" for sched
    unfolding Spawn_launched [OF launch]
  proof (rule run_invariant [where P = no_failure])
    show "no_failure (started cmd)" by (rule no_failure_started)
  next
    fix m t t'
    assume "no_failure t" "step ?env m t = Some t'"
    then show "no_failure t'"
      using no_failure_step [of ?env code t m t'] out err wait by blast
  qed
  have errs: "SelectDone \<in> set sched \<and> errors_Is e ErrTimeout \<and> as_ExitError e = None"
    if "returned (Spawn world sched cmd) = Some (out, Some e)" for sched out e
  proof -
    have "SelectDone \<in> set sched"
      using safe [of sched] that by auto
    moreover have "errors_Is e ErrTimeout \<and> as_ExitError e = None"
      using nf [of sched] that by (simp add: no_failure_def)
    ultimately show ?thesis by simp
  qed
  show ?thesis
    using safe live errs by blast
qed

text \<open>A command that exits with status 7.\<close>

theorem Spawn_exit_status_witness:
  "returned (Spawn (\<lambda>c. proc_exits ''out'' ''err'' 7) [Unit, Unit, Unit, Unit, SelectOut]
              (exec_Command ''sh'' [''-c'', ''exit 7'']))
     = Some (\<lparr>StdOut = ''out'', StdErr = ''err'', ExitCode = 7\<rparr>, None)"
  using Spawn_exit_status
    [of "\<lambda>c. proc_exits ''out'' ''err'' 7" "exec_Command ''sh'' [''-c'', ''exit 7'']" 7,
     THEN conjunct1, THEN spec [where x = "[]"]]
  by (simp add: proc_def proc_exits_def launch_err_def)

text \<open>
  C1. Where an exit status is returned as an error, or lost behind one. In the older
  copies every error of the wait is sent on the error channel, an exit error like any
  other: for a command that exits with a non-zero status \<open>code\<close>, after both reads
  succeeded, the goroutine sends the exit error, and the select that receives it makes
  the call return the zero output and that exit error. In \<^verbatim>\<open>exec.go\<close>, when the read of
  the standard output failed with \<open>e\<close>, the goroutine goes on to the wait, which reports
  the status \<open>code\<close>, and sends the output with that exit code; but \<open>e\<close> is in the error
  channel, and the select that receives it makes the call return the zero output and
  \<open>e\<close>, while the output with the exit code stays in its channel.
\<close>

theorem Spawn_exit_returned_as_error:
  assumes launch: "launch_err (proc world cmd) = None"
    and wait: "Wait_err (proc world cmd) = Some (ExitError code)"
    and err: "ReadAll_stderr (proc world cmd) = (b2, None)"
  shows "(ReadAll_stdout (proc world cmd) = (b1, None) \<longrightarrow>
            returned (Spawn_v0 world [Unit, Unit, Unit, Unit, SelectErr] cmd)
              = Some (Output_v0_zero, Some (ExitError code)) \<and>
            trace (Spawn_v0 world [Unit, Unit, Unit, Unit, SelectErr] cmd)
              = [EvStart (cmd\<lparr>Setpgid := True\<rparr>), EvReadAll Stdout None, EvReadAll Stderr None,
                 EvWait (Some (ExitError code)), EvSendErr (ExitError code)]) \<and>
         (ReadAll_stdout (proc world cmd) = (b1, Some e) \<longrightarrow>
            returned (Spawn world [Unit, Unit, Unit, Unit, Unit, SelectErr] cmd)
              = Some (Output_zero, Some e) \<and>
            outChan (Spawn world [Unit, Unit, Unit, Unit, Unit, SelectErr] cmd)
              = [\<lparr>StdOut = b1, StdErr = b2, ExitCode = code\<rparr>] \<and>
            trace (Spawn world [Unit, Unit, Unit, Unit, Unit, SelectErr] cmd)
              = [EvStart (cmd\<lparr>Setpgid := True\<rparr>), EvReadAll Stdout (Some e), EvSendErr e,
                 EvReadAll Stderr None, EvWait (Some (ExitError code)), EvSendOut])"
proof (intro conjI impI)
  assume out: "ReadAll_stdout (proc world cmd) = (b1, None)"
  note ev = Spawn_v0_launched [OF launch] started_def initial_def step_v0_def unit_step_v0_def
    select_step_def chan_send_def
  show "returned (Spawn_v0 world [Unit, Unit, Unit, Unit, SelectErr] cmd)
          = Some (Output_v0_zero, Some (ExitError code))"
    using out err wait by (simp add: ev)
  show "trace (Spawn_v0 world [Unit, Unit, Unit, Unit, SelectErr] cmd)
          = [EvStart (cmd\<lparr>Setpgid := True\<rparr>), EvReadAll Stdout None, EvReadAll Stderr None,
             EvWait (Some (ExitError code)), EvSendErr (ExitError code)]"
    using out err wait by (simp add: ev)
next
  assume out: "ReadAll_stdout (proc world cmd) = (b1, Some e)"
  note ev = Spawn_launched [OF launch] started_def initial_def step_def unit_step_def
    select_step_def chan_send_def
  show "returned (Spawn world [Unit, Unit, Unit, Unit, Unit, SelectErr] cmd)
          = Some (Output_zero, Some e)"
    using out err wait by (simp add: ev)
  show "outChan (Spawn world [Unit, Unit, Unit, Unit, Unit, SelectErr] cmd)
          = [\<lparr>StdOut = b1, StdErr = b2, ExitCode = code\<rparr>]"
    using out err wait by (simp add: ev)
  show "trace (Spawn world [Unit, Unit, Unit, Unit, Unit, SelectErr] cmd)
          = [EvStart (cmd\<lparr>Setpgid := True\<rparr>), EvReadAll Stdout (Some e), EvSendErr e,
             EvReadAll Stderr None, EvWait (Some (ExitError code)), EvSendOut]"
    using out err wait by (simp add: ev)
qed

text \<open>
  The command \<^verbatim>\<open>sh -c "exit 7"\<close>: in the older copies, and in \<^verbatim>\<open>exec.go\<close> with a failed
  read of the standard output.
\<close>

theorem Spawn_exit_returned_as_error_witness:
  "returned (Spawn_v0 (\<lambda>c. proc_exits ''out'' [] 7) [Unit, Unit, Unit, Unit, SelectErr]
              (exec_Command ''sh'' [''-c'', ''exit 7'']))
     = Some (Output_v0_zero, Some (ExitError 7)) \<and>
   returned (Spawn (\<lambda>c. (proc_exits [] [] 7)\<lparr>ReadAll_stdout := (''o'', Some (OSError ''EIO''))\<rparr>)
              [Unit, Unit, Unit, Unit, Unit, SelectErr] (exec_Command ''sh'' [''-c'', ''exit 7'']))
     = Some (Output_zero, Some (OSError ''EIO''))"
  using Spawn_exit_returned_as_error
    [of "\<lambda>c. proc_exits ''out'' [] 7" "exec_Command ''sh'' [''-c'', ''exit 7'']" 7 "[]" "''out''"
        "OSError ''x''", THEN conjunct1]
    Spawn_exit_returned_as_error
    [of "\<lambda>c. (proc_exits [] [] 7)\<lparr>ReadAll_stdout := (''o'', Some (OSError ''EIO''))\<rparr>"
        "exec_Command ''sh'' [''-c'', ''exit 7'']" 7 "[]" "''o''" "OSError ''EIO''", THEN conjunct2]
  by (simp add: proc_def proc_exits_def launch_err_def)

subsection \<open>Errors of the entry points\<close>

lemma Spawn_pending_launched:
  "returned (Spawn world pre cmd) = None \<Longrightarrow> launch_err (proc world cmd) = None"
  using Spawn_not_launched [of world cmd _ pre] by (cases "launch_err (proc world cmd)") auto

text \<open>
  C9. If the shell entry point is still blocked after a schedule and the select takes the
  deadline case next, it returns the empty string and an error in which \<^verbatim>\<open>errors.Is\<close>
  finds \<open>ErrTimeout\<close>, whatever happens afterwards. And whenever an entry point of any
  copy returns an error, the text it returns is empty (for the entry point of
  \<^verbatim>\<open>exec.go\<close> that returns an output, the combined text of that output is empty).
\<close>

theorem RunTimedSh_timeout:
  "(fst (RunTimedSh world pre command) = Blocked \<longrightarrow>
      (\<exists>e. fst (RunTimedSh world (pre @ SelectDone # post) command) = Return ([], Some e) \<and>
           errors_Is e ErrTimeout)) \<and>
   (\<forall>text e. fst (RunTimedSh world sched command) = Return (text, Some e) \<longrightarrow> text = []) \<and>
   (\<forall>out e. fst (RunTimed world environ sched env cmd args) = Return (out, Some e) \<longrightarrow>
      Combine out = []) \<and>
   (\<forall>text e. fst (RunTimedSh_quoted world sched command) = Return (text, Some e) \<longrightarrow> text = []) \<and>
   (\<forall>text e. fst (RunTimed_args world sched cmd args) = Return (text, Some e) \<longrightarrow> text = []) \<and>
   (\<forall>text e. fst (RunShTimed world sched command) = Return (text, Some e) \<longrightarrow> text = []) \<and>
   (\<forall>text e. fst (RunTimed_fields world sched command) = Return (text, Some e) \<longrightarrow> text = [])"
proof -
  let ?c = "exec_Command ''sh'' [''-c'', command]"
  have timeout: "\<exists>e. fst (RunTimedSh world (pre @ SelectDone # post) command) = Return ([], Some e) \<and>
           errors_Is e ErrTimeout" if "fst (RunTimedSh world pre command) = Blocked"
  proof -
    from that have pending: "returned (Spawn world pre ?c) = None"
      by (auto simp add: RunTimedSh_def Let_def split: option.splits prod.splits)
    note launch = Spawn_pending_launched [OF pending]
    from ctx_Done_timeout [of Output_zero "[]" "proc world ?c" "Spawn world pre ?c"]
    obtain e where "returned (Spawn world (pre @ SelectDone # post) ?c) = Some (Output_zero, Some e)"
      and "errors_Is e ErrTimeout"
      unfolding Spawn_SelectDone_final [OF launch pending] by blast
    then show ?thesis
      by (auto simp add: RunTimedSh_def Let_def)
  qed
  have 1: "\<forall>text e. fst (RunTimedSh world sched command) = Return (text, Some e) \<longrightarrow> text = []"
    by (auto simp add: RunTimedSh_def Let_def split: option.splits prod.splits)
  have 2: "\<forall>out e. fst (RunTimed world environ sched env cmd args) = Return (out, Some e) \<longrightarrow>
      Combine out = []"
    by (auto simp add: RunTimed_def Let_def Combine_def Output_zero_def split: option.splits prod.splits)
  have 3: "\<forall>text e. fst (RunTimedSh_quoted world sched command) = Return (text, Some e) \<longrightarrow> text = []"
    by (auto simp add: RunTimedSh_quoted_def Let_def split: option.splits prod.splits)
  have 4: "\<forall>text e. fst (RunTimed_args world sched cmd args) = Return (text, Some e) \<longrightarrow> text = []"
    by (auto simp add: RunTimed_args_def Let_def split: option.splits prod.splits)
  have 5: "\<forall>text e. fst (RunShTimed world sched command) = Return (text, Some e) \<longrightarrow> text = []"
    by (auto simp add: RunShTimed_def Let_def split: option.splits prod.splits)
  have 6: "\<forall>text e. fst (RunTimed_fields world sched command) = Return (text, Some e) \<longrightarrow> text = []"
    by (auto simp add: RunTimed_fields_def Let_def split: option.splits prod.splits list.splits)
  from timeout 1 2 3 4 5 6 show ?thesis by blast
qed

text \<open>
  A command still running when the deadline fires: the text read so far is not returned.
\<close>

theorem RunTimedSh_timeout_witness:
  "fst (RunTimedSh (\<lambda>c. proc_exits ''partial'' [] 0) [Unit, SelectDone, Unit, Unit, Unit, SelectOut] ''sleep 10'')
     = Return ([], Some ErrTimeout)"
  using RunTimedSh_timeout
    [of "\<lambda>c. proc_exits ''partial'' [] 0" "[Unit]" "''sleep 10''" "[Unit, Unit, Unit, SelectOut]",
     THEN conjunct1]
  by (simp add: RunTimedSh_def Spawn_def proc_def proc_exits_def step_def unit_step_def
      select_step_def ctx_Done_def initial_def chan_send_def)

subsection \<open>Failing reads and failing waits\<close>

text \<open>
  After \<^verbatim>\<open>errChan <- err\<close> for a failed read the goroutine does not return: it goes on
  to the next statement. The three theorems of this subsection evaluate what follows.
\<close>

text \<open>
  C3. What the goroutine delivers after a failure. In \<^verbatim>\<open>exec.go\<close>, when the read of the
  standard output fails with \<open>e\<close> and the rest succeeds, five statements of the goroutine
  leave \<open>e\<close> in the error channel and an output in the output channel: two deliveries
  for one call. The select that follows may take either, so the call returns the error
  under one schedule and the output, with a nil error, under another. In the older
  copies the same happens for every command that exits with a non-zero status: the exit
  error is sent, and then the output.
\<close>

theorem Spawn_delivers_error_and_output:
  assumes launch: "launch_err (proc world cmd) = None"
  shows "(ReadAll_stdout (proc world cmd) = (b1, Some e) \<and>
          ReadAll_stderr (proc world cmd) = (b2, None) \<and> Wait_err (proc world cmd) = None \<longrightarrow>
            errChan (Spawn world [Unit, Unit, Unit, Unit, Unit] cmd) = [e] \<and>
            outChan (Spawn world [Unit, Unit, Unit, Unit, Unit] cmd)
              = [\<lparr>StdOut = b1, StdErr = b2, ExitCode = 0\<rparr>] \<and>
            returned (Spawn world [Unit, Unit, Unit, Unit, Unit, SelectErr] cmd)
              = Some (Output_zero, Some e) \<and>
            returned (Spawn world [Unit, Unit, Unit, Unit, Unit, SelectOut] cmd)
              = Some (\<lparr>StdOut = b1, StdErr = b2, ExitCode = 0\<rparr>, None)) \<and>
         (ReadAll_stdout (proc world cmd) = (b1, None) \<and>
          ReadAll_stderr (proc world cmd) = (b2, None) \<and>
          Wait_err (proc world cmd) = Some (ExitError code) \<longrightarrow>
            errChan (Spawn_v0 world [Unit, Unit, Unit, Unit, Unit] cmd) = [ExitError code] \<and>
            outChan (Spawn_v0 world [Unit, Unit, Unit, Unit, Unit] cmd)
              = [\<lparr>StdOut_v0 = b1, StdErr_v0 = b2\<rparr>] \<and>
            returned (Spawn_v0 world [Unit, Unit, Unit, Unit, Unit, SelectErr] cmd)
              = Some (Output_v0_zero, Some (ExitError code)) \<and>
            returned (Spawn_v0 world [Unit, Unit, Unit, Unit, Unit, SelectOut] cmd)
              = Some (\<lparr>StdOut_v0 = b1, StdErr_v0 = b2\<rparr>, None))"
proof (intro conjI impI)
  assume a: "ReadAll_stdout (proc world cmd) = (b1, None) \<and>
          ReadAll_stderr (proc world cmd) = (b2, None) \<and>
          Wait_err (proc world cmd) = Some (ExitError code)"
  note ev = Spawn_v0_launched [OF launch] started_def initial_def step_v0_def unit_step_v0_def
    select_step_def chan_send_def
  show "errChan (Spawn_v0 world [Unit, Unit, Unit, Unit, Unit] cmd) = [ExitError code]"
    using a by (simp add: ev)
  show "outChan (Spawn_v0 world [Unit, Unit, Unit, Unit, Unit] cmd)
            = [\<lparr>StdOut_v0 = b1, StdErr_v0 = b2\<rparr>]"
    using a by (simp add: ev)
  show "returned (Spawn_v0 world [Unit, Unit, Unit, Unit, Unit, SelectErr] cmd)
            = Some (Output_v0_zero, Some (ExitError code))"
    using a by (simp add: ev)
  show "returned (Spawn_v0 world [Unit, Unit, Unit, Unit, Unit, SelectOut] cmd)
            = Some (\<lparr>StdOut_v0 = b1, StdErr_v0 = b2\<rparr>, None)"
    using a by (simp add: ev)
next
  assume a: "ReadAll_stdout (proc world cmd) = (b1, Some e) \<and>
        ReadAll_stderr (proc world cmd) = (b2, None) \<and> Wait_err (proc world cmd) = None"
  note ev = Spawn_launched [OF launch] started_def initial_def step_def unit_step_def
    select_step_def chan_send_def
  show "errChan (Spawn world [Unit, Unit, Unit, Unit, Unit] cmd) = [e]"
    using a by (simp add: ev)
  show "outChan (Spawn world [Unit, Unit, Unit, Unit, Unit] cmd)
            = [\<lparr>StdOut = b1, StdErr = b2, ExitCode = 0\<rparr>]"
    using a by (simp add: ev)
  show "returned (Spawn world [Unit, Unit, Unit, Unit, Unit, SelectErr] cmd)
            = Some (Output_zero, Some e)"
    using a by (simp add: ev)
  show "returned (Spawn world [Unit, Unit, Unit, Unit, Unit, SelectOut] cmd)
            = Some (\<lparr>StdOut = b1, StdErr = b2, ExitCode = 0\<rparr>, None)"
    using a by (simp add: ev)
qed

text \<open>The command \<^verbatim>\<open>false\<close> in the older copies, and a failed read in \<^verbatim>\<open>exec.go\<close>.\<close>

theorem Spawn_delivers_error_and_output_witness:
  "errChan (Spawn_v0 (\<lambda>c. proc_exits ''out'' [] 1) [Unit, Unit, Unit, Unit, Unit]
             (exec_Command ''false'' [])) = [ExitError 1] \<and>
   outChan (Spawn_v0 (\<lambda>c. proc_exits ''out'' [] 1) [Unit, Unit, Unit, Unit, Unit]
             (exec_Command ''false'' [])) = [\<lparr>StdOut_v0 = ''out'', StdErr_v0 = []\<rparr>] \<and>
   errChan (Spawn (\<lambda>c. (proc_exits [] [] 0)\<lparr>ReadAll_stdout := (''o'', Some (OSError ''EIO''))\<rparr>)
             [Unit, Unit, Unit, Unit, Unit] (exec_Command ''ls'' [])) = [OSError ''EIO''] \<and>
   outChan (Spawn (\<lambda>c. (proc_exits [] [] 0)\<lparr>ReadAll_stdout := (''o'', Some (OSError ''EIO''))\<rparr>)
             [Unit, Unit, Unit, Unit, Unit] (exec_Command ''ls'' []))
     = [\<lparr>StdOut = ''o'', StdErr = [], ExitCode = 0\<rparr>]"
  using Spawn_delivers_error_and_output
    [of "\<lambda>c. proc_exits ''out'' [] 1" "exec_Command ''false'' []" "''out''" "OSError ''x''" "[]" 1,
     THEN conjunct2]
    Spawn_delivers_error_and_output
    [of "\<lambda>c. (proc_exits [] [] 0)\<lparr>ReadAll_stdout := (''o'', Some (OSError ''EIO''))\<rparr>"
        "exec_Command ''ls'' []" "''o''" "OSError ''EIO''" "[]" 0, THEN conjunct1]
  by (simp add: proc_def proc_exits_def launch_err_def)

text \<open>
  C4. What the goroutine does after a failed read of the standard output, in \<^verbatim>\<open>exec.go\<close>
  and in the older copies alike: it sends the error, reads the standard error, calls the
  wait, and sends an output. The trace holds the wait and the send of the output after
  the failed read.
\<close>

theorem Spawn_wait_after_read_failure:
  assumes launch: "launch_err (proc world cmd) = None"
    and out: "ReadAll_stdout (proc world cmd) = (b1, Some e)"
    and err: "ReadAll_stderr (proc world cmd) = (b2, None)"
    and wait: "Wait_err (proc world cmd) = None"
  shows "trace (Spawn world [Unit, Unit, Unit, Unit, Unit] cmd)
           = [EvStart (cmd\<lparr>Setpgid := True\<rparr>), EvReadAll Stdout (Some e), EvSendErr e,
              EvReadAll Stderr None, EvWait None, EvSendOut] \<and>
         outChan (Spawn world [Unit, Unit, Unit, Unit, Unit] cmd)
           = [\<lparr>StdOut = b1, StdErr = b2, ExitCode = 0\<rparr>] \<and>
         trace (Spawn_v0 world [Unit, Unit, Unit, Unit, Unit] cmd)
           = [EvStart (cmd\<lparr>Setpgid := True\<rparr>), EvReadAll Stdout (Some e), EvSendErr e,
              EvReadAll Stderr None, EvWait None, EvSendOut] \<and>
         outChan (Spawn_v0 world [Unit, Unit, Unit, Unit, Unit] cmd)
           = [\<lparr>StdOut_v0 = b1, StdErr_v0 = b2\<rparr>]"
  using out err wait
  by (simp add: Spawn_launched [OF launch] Spawn_v0_launched [OF launch] started_def initial_def
      step_def step_v0_def unit_step_def unit_step_v0_def chan_send_def)

text \<open>A read of the standard output that fails with an input/output error.\<close>

theorem Spawn_wait_after_read_failure_witness:
  "trace (Spawn (\<lambda>c. (proc_exits ''ok'' [] 0)\<lparr>ReadAll_stdout := (''o'', Some (OSError ''EIO''))\<rparr>)
           [Unit, Unit, Unit, Unit, Unit] (exec_Command ''ls'' []))
     = [EvStart ((exec_Command ''ls'' [])\<lparr>Setpgid := True\<rparr>),
        EvReadAll Stdout (Some (OSError ''EIO'')), EvSendErr (OSError ''EIO''),
        EvReadAll Stderr None, EvWait None, EvSendOut]"
  using Spawn_wait_after_read_failure
    [of "\<lambda>c. (proc_exits ''ok'' [] 0)\<lparr>ReadAll_stdout := (''o'', Some (OSError ''EIO''))\<rparr>"
        "exec_Command ''ls'' []" "''o''" "OSError ''EIO''" "[]"]
  by (simp add: proc_def proc_exits_def launch_err_def)

text \<open>
  C5. The wait after a read that did not reach end-of-stream: when the read of the
  standard error ends with an error \<open>e\<close>, the fourth statement of the goroutine is the
  wait, in \<^verbatim>\<open>exec.go\<close> and in the older copies alike.
\<close>

theorem Spawn_wait_with_undrained_pipe:
  assumes launch: "launch_err (proc world cmd) = None"
    and out: "ReadAll_stdout (proc world cmd) = (b1, None)"
    and err: "ReadAll_stderr (proc world cmd) = (b2, Some e)"
  shows "trace (Spawn world [Unit, Unit, Unit, Unit] cmd)
           = [EvStart (cmd\<lparr>Setpgid := True\<rparr>), EvReadAll Stdout None,
              EvReadAll Stderr (Some e), EvSendErr e, EvWait (Wait_err (proc world cmd))] \<and>
         trace (Spawn_v0 world [Unit, Unit, Unit, Unit] cmd)
           = [EvStart (cmd\<lparr>Setpgid := True\<rparr>), EvReadAll Stdout None,
              EvReadAll Stderr (Some e), EvSendErr e, EvWait (Wait_err (proc world cmd))]"
  using out err
  by (simp add: Spawn_launched [OF launch] Spawn_v0_launched [OF launch] started_def initial_def
      step_def step_v0_def unit_step_def unit_step_v0_def chan_send_def
      split: option.splits)

text \<open>A read of the standard error that fails with an input/output error.\<close>

theorem Spawn_wait_with_undrained_pipe_witness:
  "trace (Spawn (\<lambda>c. (proc_exits ''ok'' [] 0)\<lparr>ReadAll_stderr := (''e'', Some (OSError ''EIO''))\<rparr>)
           [Unit, Unit, Unit, Unit] (exec_Command ''ls'' []))
     = [EvStart ((exec_Command ''ls'' [])\<lparr>Setpgid := True\<rparr>), EvReadAll Stdout None,
        EvReadAll Stderr (Some (OSError ''EIO'')), EvSendErr (OSError ''EIO''), EvWait None]"
  using Spawn_wait_with_undrained_pipe
    [of "\<lambda>c. (proc_exits ''ok'' [] 0)\<lparr>ReadAll_stderr := (''e'', Some (OSError ''EIO''))\<rparr>"
        "exec_Command ''ls'' []" "''ok''" "''e''" "OSError ''EIO''"]
  by (simp add: proc_def proc_exits_def launch_err_def)

subsection \<open>The command handed to the shell\<close>

text \<open>The trace only grows, so its first event is the start of the command.\<close>

lemma step_trace: "step env m s = Some s' \<Longrightarrow> \<exists>t. trace s' = trace s @ t"
  by (cases m)
    (auto simp add: step_def unit_step_def select_step_def ctx_Done_def chan_send_def
      split: pc.splits option.splits prod.splits if_splits list.splits)

lemma step_v0_trace: "step_v0 env m s = Some s' \<Longrightarrow> \<exists>t. trace s' = trace s @ t"
  by (cases m)
    (auto simp add: step_v0_def unit_step_v0_def select_step_def ctx_Done_def chan_send_def
      split: pc.splits option.splits prod.splits if_splits list.splits)

lemma run_step_trace: "\<exists>t. trace (run (step env) ms s) = trace s @ t"
  by (rule run_invariant [where P = "\<lambda>u. \<exists>t. trace u = trace s @ t"])
    (auto dest: step_trace)

lemma run_step_v0_trace: "\<exists>t. trace (run (step_v0 env) ms s) = trace s @ t"
  by (rule run_invariant [where P = "\<lambda>u. \<exists>t. trace u = trace s @ t"])
    (auto dest: step_v0_trace)

lemma Spawn_first_event:
  assumes "StdoutPipe_err (proc world cmd) = None" "StderrPipe_err (proc world cmd) = None"
  shows "hd (trace (Spawn world sched cmd)) = EvStart (cmd\<lparr>Setpgid := True\<rparr>)"
proof (cases "Start_err (proc world cmd)")
  case None
  with assms have l: "launch_err (proc world cmd) = None" by (simp add: launch_err_def)
  from run_step_trace [of "proc world cmd" sched "started cmd"] show ?thesis
    by (auto simp add: Spawn_launched [OF l] started_def)
next
  case (Some e)
  with assms show ?thesis by (simp add: Spawn_def)
qed

lemma Spawn_v0_first_event:
  assumes "StdoutPipe_err (proc world cmd) = None" "StderrPipe_err (proc world cmd) = None"
  shows "hd (trace (Spawn_v0 world sched cmd)) = EvStart (cmd\<lparr>Setpgid := True\<rparr>)"
proof (cases "Start_err (proc world cmd)")
  case None
  with assms have l: "launch_err (proc world cmd) = None" by (simp add: launch_err_def)
  from run_step_v0_trace [of "proc world cmd" sched "started cmd"] show ?thesis
    by (auto simp add: Spawn_v0_launched [OF l] started_def)
next
  case (Some e)
  with assms show ?thesis by (simp add: Spawn_v0_def)
qed

text \<open>
  C7. What each shell entry point hands to the shell, where the pipes can be created. The
  entry point of \<^verbatim>\<open>exec.go\<close> starts \<^verbatim>\<open>sh -c\<close> followed by the caller's text, byte for byte.
  The entry points of the older copies (\<open>RunShTimed\<close> and the older \<open>RunTimedSh\<close>) start
  \<^verbatim>\<open>sh -c\<close> followed by the caller's text between two single-quote characters, so that
  the shell reads the whole text as one word, the name of a command.
\<close>

theorem shell_command_text:
  assumes pipes: "\<forall>c. StdoutPipe_err (world c) = None \<and> StderrPipe_err (world c) = None"
  shows "hd (snd (RunTimedSh world sched command))
           = EvStart \<lparr>Path = ''sh'', Args = [''sh'', ''-c'', command], Env = None, Setpgid = True\<rparr> \<and>
         hd (snd (RunShTimed world sched command))
           = EvStart \<lparr>Path = ''sh'', Args = [''sh'', ''-c'', [CHR 0x27] @ command @ [CHR 0x27]],
                      Env = None, Setpgid = True\<rparr> \<and>
         hd (snd (RunTimedSh_quoted world sched command))
           = EvStart \<lparr>Path = ''sh'', Args = [''sh'', ''-c'', [CHR 0x27] @ command @ [CHR 0x27]],
                      Env = None, Setpgid = True\<rparr>"
proof -
  have p: "StdoutPipe_err (proc world c) = None" "StderrPipe_err (proc world c) = None" for c
    using pipes by (simp_all add: proc_def)
  show ?thesis
    by (simp add: RunTimedSh_def RunShTimed_def RunTimedSh_quoted_def Let_def
        Spawn_first_event [OF p] Spawn_v0_first_event [OF p] exec_Command_def Sprintf_quoted_def)
qed

text \<open>The text \<^verbatim>\<open>echo hi\<close>, through the entry point of \<^verbatim>\<open>exec.go\<close> and through an older one.\<close>

theorem shell_command_text_witness:
  "hd (snd (RunTimedSh (\<lambda>c. proc_exits ''hi'' [] 0) [Unit] ''echo hi''))
     = EvStart \<lparr>Path = ''sh'', Args = [''sh'', ''-c'', ''echo hi''], Env = None, Setpgid = True\<rparr> \<and>
   hd (snd (RunShTimed (\<lambda>c. proc_exits ''hi'' [] 0) [Unit] ''echo hi''))
     = EvStart \<lparr>Path = ''sh'', Args = [''sh'', ''-c'', [CHR 0x27] @ ''echo hi'' @ [CHR 0x27]],
                Env = None, Setpgid = True\<rparr>"
  using shell_command_text [of "\<lambda>c. proc_exits ''hi'' [] 0" "[Unit]" "''echo hi''"]
  by (simp add: proc_exits_def)

subsection \<open>The tokenizing entry point\<close>

lemma captured_v0_step:
  assumes s: "captured_v0 env s" and stp: "step_v0 env m s = Some s'"
  shows "captured_v0 env s'"
proof (cases m)
  case Unit
  with s stp show ?thesis
    by (cases "upc s"; cases "ReadAll_stdout env"; cases "ReadAll_stderr env")
      (auto simp add: captured_v0_def step_v0_def unit_step_v0_def chan_send_def
        split: if_splits option.splits)
next
  case SelectOut
  with s stp show ?thesis
    by (auto simp add: captured_v0_def step_v0_def select_step_def split: if_splits list.splits)
next
  case SelectErr
  with s stp show ?thesis
    by (auto simp add: captured_v0_def step_v0_def select_step_def split: if_splits list.splits)
next
  case SelectDone
  with s stp show ?thesis
    by (auto simp add: captured_v0_def step_v0_def select_step_def ctx_Done_def errors_Join_def
        List.map_filter_simps split: if_splits option.splits)
qed

lemma Spawn_v0_captured:
  assumes "returned (Spawn_v0 world sched cmd) = Some (v, None)"
  shows "v = \<lparr>StdOut_v0 = fst (ReadAll_stdout (proc world cmd)),
              StdErr_v0 = fst (ReadAll_stderr (proc world cmd))\<rparr>"
proof (cases "launch_err (proc world cmd)")
  case None
  have "captured_v0 (proc world cmd) (Spawn_v0 world sched cmd)"
    unfolding Spawn_v0_launched [OF None]
  proof (rule run_invariant [where P = "captured_v0 (proc world cmd)"])
    show "captured_v0 (proc world cmd) (started cmd)"
      by (simp add: captured_v0_def started_def initial_def)
  next
    fix m t t'
    assume "captured_v0 (proc world cmd) t" "step_v0 (proc world cmd) m t = Some t'"
    then show "captured_v0 (proc world cmd) t'" by (rule captured_v0_step)
  qed
  with assms show ?thesis by (simp add: captured_v0_def)
next
  case (Some e)
  with assms show ?thesis
    by (auto simp add: Spawn_v0_def launch_err_def initial_def split: option.splits)
qed

text \<open>
  The two scans are unfolded by hand in the proofs below, one step at a time.
\<close>

declare fields_from.simps [simp del] only_space.simps [simp del]

lemma fields_from_empty: "(fields_from cur s = []) = (cur = [] \<and> only_space s)"
proof (induction cur s rule: fields_from.induct)
  case (1 cur s)
  show ?case
  proof (cases "s = []")
    case True
    then show ?thesis
      by (subst fields_from.simps, subst only_space.simps) simp
  next
    case False
    show ?thesis
    proof (cases "space_width s = 0")
      case True
      with False "1.IH"(1) show ?thesis
        by (subst fields_from.simps, subst only_space.simps) simp
    next
      case nz: False
      with False "1.IH"(2) show ?thesis
        by (subst fields_from.simps, subst only_space.simps) simp
    qed
  qed
qed

lemma Fields_empty: "(Fields s = []) = only_space s"
  by (simp add: Fields_def fields_from_empty)

text \<open>
  C10. The tokenizing entry point panics exactly when \<^verbatim>\<open>strings.Fields\<close> returns no field,
  which is exactly when the command string is empty or holds white space only. It then
  has started nothing and returns nothing, so no launch error comes back; for every other
  string it does not panic.
\<close>

theorem RunTimed_fields_panics:
  "(fst (RunTimed_fields world sched command) = Panic) = (Fields command = []) \<and>
   (Fields command = []) = only_space command \<and>
   (fst (RunTimed_fields world sched command) = Panic \<longrightarrow>
      snd (RunTimed_fields world sched command) = [])"
proof (cases "Fields command")
  case Nil
  then show ?thesis
    using Fields_empty [of command] by (simp add: RunTimed_fields_def)
next
  case (Cons bin rest)
  then show ?thesis
    using Fields_empty [of command]
    by (simp add: RunTimed_fields_def Let_def split: option.splits prod.splits)
qed

text \<open>The empty string, a blank followed by a tab, and \<^verbatim>\<open>ls\<close>.\<close>

theorem RunTimed_fields_panics_witness:
  "fst (RunTimed_fields (\<lambda>c. proc_exits [] [] 0) [Unit, SelectOut] []) = Panic \<and>
   fst (RunTimed_fields (\<lambda>c. proc_exits [] [] 0) [Unit, SelectOut] [CHR 0x20, CHR 0x09]) = Panic \<and>
   fst (RunTimed_fields (\<lambda>c. proc_exits [] [] 0) [Unit, SelectOut] ''ls'') \<noteq> Panic"
proof -
  have "only_space []" "only_space [CHR 0x20, CHR 0x09]" "\<not> only_space ''ls''"
    by code_simp+
  with RunTimed_fields_panics [of "\<lambda>c. proc_exits [] [] 0" "[Unit, SelectOut]" "[]"]
    RunTimed_fields_panics [of "\<lambda>c. proc_exits [] [] 0" "[Unit, SelectOut]" "[CHR 0x20, CHR 0x09]"]
    RunTimed_fields_panics [of "\<lambda>c. proc_exits [] [] 0" "[Unit, SelectOut]" "''ls''"]
  show ?thesis by simp
qed

text \<open>
  C8. Let \<^verbatim>\<open>strings.Fields\<close> split the command string into a first field \<open>bin\<close> and the
  fields \<open>args\<close> after it. Where the pipes can be created, the command the entry point
  starts has \<open>bin\<close> as its path and \<open>bin\<close> followed by \<open>args\<close> as its argument vector.
  Whenever the entry point returns a text with a nil error, under any schedule, the text
  is what the read of the standard output returned followed by what the read of the
  standard error returned. And it does return it: when the launch, both reads and the
  wait succeed, four statements of the goroutine and the receive of the select end the
  call with that text.
\<close>

theorem RunTimed_fields_spec:
  assumes fields: "Fields command = bin # args"
  shows
    "(StdoutPipe_err (proc world (exec_Command bin args)) = None \<and>
      StderrPipe_err (proc world (exec_Command bin args)) = None \<longrightarrow>
        hd (snd (RunTimed_fields world sched command))
          = EvStart \<lparr>Path = bin, Args = bin # args, Env = None, Setpgid = True\<rparr>) \<and>
     (\<forall>text. fst (RunTimed_fields world sched command) = Return (text, None) \<longrightarrow>
        text = fst (ReadAll_stdout (proc world (exec_Command bin args)))
               @ fst (ReadAll_stderr (proc world (exec_Command bin args)))) \<and>
     (launch_err (proc world (exec_Command bin args)) = None \<and>
      snd (ReadAll_stdout (proc world (exec_Command bin args))) = None \<and>
      snd (ReadAll_stderr (proc world (exec_Command bin args))) = None \<and>
      Wait_err (proc world (exec_Command bin args)) = None \<longrightarrow>
        fst (RunTimed_fields world [Unit, Unit, Unit, Unit, SelectOut] command)
          = Return (fst (ReadAll_stdout (proc world (exec_Command bin args)))
                    @ fst (ReadAll_stderr (proc world (exec_Command bin args))), None))"
proof -
  let ?c = "exec_Command bin args"
  have call: "RunTimed_fields world sch command =
     (let s = Spawn_v0 world sch ?c in
        (case returned s of
           None \<Rightarrow> Blocked
         | Some (output, err) \<Rightarrow>
             (case err of Some e \<Rightarrow> Return ([], Some e) | None \<Rightarrow> Return (Combine_v0 output, None)),
         trace s))" for sch
    using fields by (cases args) (simp_all add: RunTimed_fields_def Let_def)
  have first: "hd (snd (RunTimed_fields world sched command))
          = EvStart \<lparr>Path = bin, Args = bin # args, Env = None, Setpgid = True\<rparr>"
    if "StdoutPipe_err (proc world ?c) = None" "StderrPipe_err (proc world ?c) = None"
    using Spawn_v0_first_event [OF that, of sched]
    by (simp add: call Let_def exec_Command_def)
  have combined: "t = fst (ReadAll_stdout (proc world ?c)) @ fst (ReadAll_stderr (proc world ?c))"
    if "fst (RunTimed_fields world sched command) = Return (t, None)" for t
  proof -
    from that obtain v where v: "returned (Spawn_v0 world sched ?c) = Some (v, None)"
      and t: "t = Combine_v0 v"
      by (auto simp add: call Let_def split: option.splits prod.splits)
    from Spawn_v0_captured [OF v] t show ?thesis
      by (simp add: Combine_v0_def)
  qed
  have live: "fst (RunTimed_fields world [Unit, Unit, Unit, Unit, SelectOut] command)
          = Return (fst (ReadAll_stdout (proc world ?c)) @ fst (ReadAll_stderr (proc world ?c)), None)"
    if l: "launch_err (proc world ?c) = None" and o: "snd (ReadAll_stdout (proc world ?c)) = None"
      and e: "snd (ReadAll_stderr (proc world ?c)) = None" and w: "Wait_err (proc world ?c) = None"
    using o e w
    by (cases "ReadAll_stdout (proc world ?c)"; cases "ReadAll_stderr (proc world ?c)")
      (simp add: call Let_def Spawn_v0_launched [OF l] started_def initial_def step_v0_def
        unit_step_v0_def select_step_def chan_send_def Combine_v0_def)
  from first combined live show ?thesis by blast
qed

text \<open>
  The command line \<^verbatim>\<open>ls -l  /tmp\<close>, with two blanks before the last field.
\<close>

theorem RunTimed_fields_spec_witness:
  "fst (RunTimed_fields (\<lambda>c. proc_exits ''total 0'' ''warn'' 0) [Unit, Unit, Unit, Unit, SelectOut]
         ''ls -l  /tmp'') = Return (''total 0warn'', None) \<and>
   hd (snd (RunTimed_fields (\<lambda>c. proc_exits ''total 0'' ''warn'' 0) [Unit, Unit, Unit, Unit, SelectOut]
         ''ls -l  /tmp''))
     = EvStart \<lparr>Path = ''ls'', Args = [''ls'', ''-l'', ''/tmp''], Env = None, Setpgid = True\<rparr>"
proof -
  have f: "Fields ''ls -l  /tmp'' = [''ls'', ''-l'', ''/tmp'']"
    by code_simp
  note spec = RunTimed_fields_spec [OF f, of "\<lambda>c. proc_exits ''total 0'' ''warn'' 0"
      "[Unit, Unit, Unit, Unit, SelectOut]"]
  from spec [THEN conjunct1] spec [THEN conjunct2, THEN conjunct2]
  show ?thesis
    by (simp add: proc_def proc_exits_def launch_err_def)
qed

subsection \<open>Splitting on white space\<close>

text \<open>
  What the scan of \<^verbatim>\<open>strings.Fields\<close> gives on a string made of runs of bytes that start
  no white-space character, each run after the first preceded by one white-space
  character: the runs that are not empty, in order.
\<close>

lemma space_width_plain: "plain c \<Longrightarrow> space_width (c # s) = 0"
  by (simp add: plain_def space_width_def unicode_space_def)

lemma space_width_space_all: "\<forall>sp \<in> set unicode_space. space_width (sp @ s) = length sp"
  by (simp add: unicode_space_def space_width_def)

lemma space_width_space: "sp \<in> set unicode_space \<Longrightarrow> space_width (sp @ s) = length sp"
  using space_width_space_all by blast

lemma fields_from_plain:
  "\<forall>c \<in> set t. plain c \<Longrightarrow> fields_from cur (t @ s) = fields_from (cur @ t) s"
proof (induction t arbitrary: cur)
  case Nil
  then show ?case by simp
next
  case (Cons c t)
  from Cons.prems have c: "space_width ((c # t) @ s) = 0"
    by (simp add: space_width_plain)
  from Cons.prems have "fields_from (cur @ [c]) (t @ s) = fields_from ((cur @ [c]) @ t) s"
    by (intro Cons.IH) simp
  with c show ?case
    by (subst fields_from.simps) simp
qed

lemma fields_from_space:
  assumes "sp \<in> set unicode_space"
  shows "fields_from cur (sp @ s) = (if cur = [] then [] else [cur]) @ fields_from [] s"
proof -
  from assms have "sp \<noteq> []"
    by (auto simp add: unicode_space_def)
  with space_width_space [OF assms, of s] show ?thesis
    by (subst fields_from.simps) simp
qed

lemma fields_from_pairs:
  assumes "\<forall>(sp, t) \<in> set ps. sp \<in> set unicode_space \<and> (\<forall>c \<in> set t. plain c)"
  shows "fields_from cur (concat (map (\<lambda>(sp, t). sp @ t) ps))
           = filter (\<lambda>t. t \<noteq> []) (cur # map snd ps)"
  using assms
proof (induction ps arbitrary: cur)
  case Nil
  show ?case by (subst fields_from.simps) simp
next
  case (Cons p ps)
  obtain sp t where p: "p = (sp, t)" by (cases p)
  let ?rest = "concat (map (\<lambda>(sp, t). sp @ t) ps)"
  from Cons.prems p have sp: "sp \<in> set unicode_space" and t: "\<forall>c \<in> set t. plain c"
    and ps: "\<forall>(sp, t) \<in> set ps. sp \<in> set unicode_space \<and> (\<forall>c \<in> set t. plain c)"
    by auto
  have "fields_from cur (sp @ t @ ?rest)
          = (if cur = [] then [] else [cur]) @ fields_from [] (t @ ?rest)"
    by (rule fields_from_space [OF sp])
  also have "fields_from [] (t @ ?rest) = fields_from t ?rest"
    using fields_from_plain [OF t, of "[]" ?rest] by simp
  also have "\<dots> = filter (\<lambda>t. t \<noteq> []) (t # map snd ps)"
    by (rule Cons.IH [OF ps])
  finally show ?case
    using p by simp
qed

lemma Fields_splits_on_white_space:
  assumes "\<forall>c \<in> set t0. plain c"
    and "\<forall>(sp, t) \<in> set ps. sp \<in> set unicode_space \<and> (\<forall>c \<in> set t. plain c)"
  shows "Fields (t0 @ concat (map (\<lambda>(sp, t). sp @ t) ps))
           = filter (\<lambda>t. t \<noteq> []) (t0 # map snd ps)"
  using fields_from_plain [OF assms(1), of "[]"] fields_from_pairs [OF assms(2), of t0]
  by (simp add: Fields_def)

lemma Fields_splits_on_white_space_example:
  "Fields (''ls'' @ concat (map (\<lambda>(sp, t). sp @ t)
      [('' '', ''-l''), ([CHR 0x09], []), ([CHR 0xC2, CHR 0xA0], ''/tmp''), ([CHR 0x0A], [])]))
     = [''ls'', ''-l'', ''/tmp'']"
proof -
  have t0: "\<forall>c \<in> set ''ls''. plain c"
    by (simp add: plain_def unicode_space_def)
  have ps: "\<forall>(sp, t) \<in> set [('' '', ''-l''), ([CHR 0x09], []),
      ([CHR 0xC2, CHR 0xA0], ''/tmp''), ([CHR 0x0A], [])].
        sp \<in> set unicode_space \<and> (\<forall>c \<in> set t. plain c)"
    by (simp add: plain_def unicode_space_def)
  from Fields_splits_on_white_space [OF t0 ps] show ?thesis
    by simp
qed

subsection \<open>The order of the reads and the wait\<close>

lemma on_script_step:
  assumes s: "on_script env s" and stp: "step env m s = Some s'"
  shows "on_script env s'"
proof (cases m)
  case Unit
  with s stp show ?thesis
    by (cases "upc s"; cases "ReadAll_stdout env"; cases "ReadAll_stderr env")
      (auto simp add: on_script_def script_left_def script_def step_def unit_step_def
        chan_send_def send_if_failed_def after_wait_def
        split: if_splits option.splits)
next
  case SelectOut
  with s stp show ?thesis
    by (auto simp add: on_script_def step_def select_step_def
        split: if_splits list.splits option.splits)
next
  case SelectErr
  with s stp show ?thesis
    by (auto simp add: on_script_def step_def select_step_def
        split: if_splits list.splits option.splits)
next
  case SelectDone
  with s stp show ?thesis
    by (auto simp add: on_script_def step_def select_step_def ctx_Done_def
        split: if_splits option.splits)
qed

lemma Spawn_on_script:
  assumes launch: "launch_err (proc world cmd) = None"
  shows "on_script (proc world cmd) (Spawn world sched cmd)"
  unfolding Spawn_launched [OF launch]
proof (rule run_invariant [where P = "on_script (proc world cmd)"])
  show "on_script (proc world cmd) (started cmd)"
    by (simp add: on_script_def script_left_def started_def initial_def)
next
  fix m t t'
  assume "on_script (proc world cmd) t" "step (proc world cmd) m t = Some t'"
  then show "on_script (proc world cmd) t'" by (rule on_script_step)
qed

lemma split_at_only:
  assumes eq: "xs @ x # ys = pre @ y # post" and x: "P x"
    and pre: "\<forall>z \<in> set pre. \<not> P z" and post: "\<forall>z \<in> set post. \<not> P z"
  shows "xs = pre"
proof -
  from eq obtain us where
    "(xs = pre @ us \<and> us @ x # ys = y # post) \<or> (xs @ us = pre \<and> x # ys = us @ y # post)"
    by (auto simp add: append_eq_append_conv2)
  then show ?thesis
  proof
    assume a: "xs = pre @ us \<and> us @ x # ys = y # post"
    show ?thesis
    proof (cases us)
      case Nil
      with a show ?thesis by simp
    next
      case (Cons u us')
      with a have "x \<in> set post" by auto
      with x post show ?thesis by blast
    qed
  next
    assume a: "xs @ us = pre \<and> x # ys = us @ y # post"
    show ?thesis
    proof (cases us)
      case Nil
      with a show ?thesis by simp
    next
      case (Cons u us')
      with a have "x \<in> set pre" by auto
      with x pre show ?thesis by blast
    qed
  qed
qed

lemma on_script_wait:
  assumes s: "on_script env s" and t: "trace s = a @ EvWait w # b"
  shows "EvReadAll Stdout (snd (ReadAll_stdout env)) \<in> set a \<and>
         EvReadAll Stderr (snd (ReadAll_stderr env)) \<in> set a"
proof -
  let ?pre = "[EvReadAll Stdout (snd (ReadAll_stdout env))]
     @ send_if_failed (snd (ReadAll_stdout env))
     @ [EvReadAll Stderr (snd (ReadAll_stderr env))] @ send_if_failed (snd (ReadAll_stderr env))"
  from s obtain rest where r: "filter is_unit_event (trace s) @ rest = script env"
    by (auto simp add: on_script_def split: option.splits)
  have "filter is_unit_event a @ EvWait w # (filter is_unit_event b @ rest)
          = ?pre @ EvWait (Wait_err env) # after_wait (Wait_err env)"
    using r by (simp add: t script_def)
  moreover have "\<forall>z \<in> set ?pre. \<not> is_wait z"
    by (auto simp add: send_if_failed_def split: option.splits)
  moreover have "\<forall>z \<in> set (after_wait (Wait_err env)). \<not> is_wait z"
    by (auto simp add: after_wait_def split: option.splits)
  ultimately have "filter is_unit_event a = ?pre"
    using split_at_only [where P = is_wait and x = "EvWait w" and xs = "filter is_unit_event a"
        and pre = ?pre]
    by simp
  then have "set ?pre \<subseteq> set a"
    by (metis filter_is_subset)
  then show ?thesis by simp
qed

text \<open>
  X1. In every execution of a launched command, the events of the goroutine of
  \<^verbatim>\<open>exec.go\<close> are a prefix of its script. In particular, when the trace holds a wait,
  the two reads are in the trace before it: both calls of \<^verbatim>\<open>io.ReadAll\<close> have returned
  before \<^verbatim>\<open>cmd.Wait\<close> is called. (A read that returned an error has not reached
  end-of-stream; the wait follows it all the same.)
\<close>

theorem Spawn_reads_before_wait:
  assumes launch: "launch_err (proc world cmd) = None"
  shows "(\<exists>rest. filter is_unit_event (trace (Spawn world sched cmd)) @ rest
                   = script (proc world cmd)) \<and>
         (\<forall>a w b. trace (Spawn world sched cmd) = a @ EvWait w # b \<longrightarrow>
            EvReadAll Stdout (snd (ReadAll_stdout (proc world cmd))) \<in> set a \<and>
            EvReadAll Stderr (snd (ReadAll_stderr (proc world cmd))) \<in> set a)"
proof -
  note s = Spawn_on_script [OF launch, of sched]
  from s have "\<exists>rest. filter is_unit_event (trace (Spawn world sched cmd)) @ rest
                   = script (proc world cmd)"
    by (auto simp add: on_script_def split: option.splits)
  with on_script_wait [OF s] show ?thesis by blast
qed

text \<open>
  A command that exits with status 3, with the deadline firing after the second read.
\<close>

theorem Spawn_reads_before_wait_witness:
  "\<exists>rest. filter is_unit_event
     (trace (Spawn (\<lambda>c. proc_exits ''out'' [] 3) [Unit, Unit, SelectDone, Unit, Unit]
               (exec_Command ''ls'' []))) @ rest
   = [EvReadAll Stdout None, EvReadAll Stderr None, EvWait (Some (ExitError 3)), EvSendOut]"
  using Spawn_reads_before_wait [of "\<lambda>c. proc_exits ''out'' [] 3" "exec_Command ''ls'' []"
      "[Unit, Unit, SelectDone, Unit, Unit]", THEN conjunct1]
  by (simp add: proc_def proc_exits_def launch_err_def script_def send_if_failed_def
      after_wait_def)

end
